theory Spec2Isabelle
  imports Main "HOL-Library.List_Lexorder" "HOL-Library.Char_ord" "HOL-Library.Product_Lexorder"
begin

section \<open>The query client, as the components see it\<close>

text \<open>
  Every component talks to the hosted backend through a query client: it builds a
  query (\<^verbatim>\<open>from(..).select(..).gte(..).order(..).limit(..)\<close>), awaits it, and gets an
  object \<^verbatim>\<open>{ data, error }\<close> back. The components test \<^verbatim>\<open>error\<close> for truthiness and
  read \<^verbatim>\<open>data\<close> with \<^verbatim>\<open>data || []\<close>, so both fields are optional here and no link
  between them is assumed.

  A value caught by \<^verbatim>\<open>catch (err)\<close> is shown as
  \<^verbatim>\<open>err instanceof Error ? err.message : '<fixed text>'\<close>.
\<close>

record failure =
  instanceof_Error :: bool
  message :: string

definition error_text :: "failure \<Rightarrow> string \<Rightarrow> string" where
  "error_text err fallback = (if instanceof_Error err then message err else fallback)"

record 'a response =
  r_data :: "'a option"
  r_error :: "failure option"

text \<open>\<^verbatim>\<open>data || []\<close>\<close>

definition rows_or_empty :: "'a list option \<Rightarrow> 'a list" where
  "rows_or_empty d = (case d of None \<Rightarrow> [] | Some rows \<Rightarrow> rows)"

text \<open>
  A query is the record of the builder calls made on it. The argument of
  \<^verbatim>\<open>.or(..)\<close> is kept as the string the component builds.
\<close>

datatype filter =
    Gte string string
  | In_list string "string list"
  | Eq string string
  | Or_string string

record query =
  q_table :: string
  q_select :: "string list"
  q_filters :: "filter list"
  q_order :: "(string \<times> bool) option"
  q_limit :: "nat option"
  q_single :: bool

section \<open>The home page: featured events\<close>

text \<open>
  \<^verbatim>\<open>interface FeaturedEvent { id; title; date; image_url: string | null;
  club: { name }[] | null; category?: string }\<close>. Dates are ISO-8601 strings
  (\<^verbatim>\<open>new Date().toISOString().split('T')[0]\<close> is \<^verbatim>\<open>YYYY-MM-DD\<close>), which the
  lexicographic order on strings orders chronologically.
\<close>

record featured_event =
  fe_id :: string
  fe_title :: string
  fe_date :: string
  fe_image_url :: "string option"
  fe_club :: "string list option"
  fe_category :: "string option"

text \<open>The row read from \<^verbatim>\<open>profiles\<close>: \<^verbatim>\<open>interests\<close> is \<open>Some\<close> exactly when it is an array.\<close>

record profile =
  interests :: "string list option"

record user =
  user_id :: string
  is_admin :: bool

record feed_backend =
  fb_profiles :: "query \<Rightarrow> profile response"
  fb_events :: "query \<Rightarrow> featured_event list response"

record feed_state =
  featuredEvents :: "featured_event list"
  loadingFeaturedEvents :: bool

definition profile_query :: "string \<Rightarrow> query" where
  "profile_query uid =
     \<lparr>q_table = ''profiles'', q_select = [''interests''], q_filters = [Eq ''id'' uid],
      q_order = None, q_limit = None, q_single = True\<rparr>"

definition interests_query :: "string \<Rightarrow> string list \<Rightarrow> query" where
  "interests_query today userInterests =
     \<lparr>q_table = ''events'',
      q_select = [''id'', ''title'', ''date'', ''image_url'', ''category'', ''club:clubs(name)''],
      q_filters = [Gte ''date'' today, In_list ''category'' userInterests],
      q_order = Some (''date'', True), q_limit = Some 3, q_single = False\<rparr>"

definition fallback_query :: "string \<Rightarrow> query" where
  "fallback_query today =
     \<lparr>q_table = ''events'',
      q_select = [''id'', ''title'', ''date'', ''image_url'', ''club:clubs(name)''],
      q_filters = [Gte ''date'' today],
      q_order = Some (''date'', True), q_limit = Some 3, q_single = False\<rparr>"

text \<open>
  Step 1 of \<^verbatim>\<open>fetchFeaturedEvents\<close>: \<^verbatim>\<open>if (user?.id)\<close> reads the profile; a
  \<^verbatim>\<open>profileError\<close> is only logged; \<^verbatim>\<open>userInterests\<close> is set when
  \<^verbatim>\<open>profileData && Array.isArray(profileData.interests)\<close>. The result is the value of
  \<^verbatim>\<open>userInterests\<close> (\<open>None\<close> for \<^verbatim>\<open>null\<close>) and the queries issued.
\<close>

definition read_interests :: "feed_backend \<Rightarrow> user option \<Rightarrow> string list option \<times> query list" where
  "read_interests b usr =
     (case usr of
        None \<Rightarrow> (None, [])
      | Some u \<Rightarrow>
          if user_id u = [] then (None, [])
          else
            (case r_data (fb_profiles b (profile_query (user_id u))) of
               None \<Rightarrow> (None, [profile_query (user_id u)])
             | Some profileData \<Rightarrow> (interests profileData, [profile_query (user_id u)])))"

text \<open>
  Step 2: \<^verbatim>\<open>if (userInterests && userInterests.length > 0)\<close> the interest-filtered
  query is awaited; \<^verbatim>\<open>if (error) throw error\<close>;
  \<^verbatim>\<open>if (data && data.length > 0) fetchedEvents = data\<close>. \<open>Inl\<close> is the thrown value,
  \<open>Inr\<close> the value of \<^verbatim>\<open>fetchedEvents\<close> after the step.
\<close>

definition by_interests ::
  "feed_backend \<Rightarrow> string \<Rightarrow> string list option \<Rightarrow> (failure + featured_event list) \<times> query list" where
  "by_interests b today userInterests =
     (case userInterests of
        None \<Rightarrow> (Inr [], [])
      | Some ints \<Rightarrow>
          if ints = [] then (Inr [], [])
          else
            (let r = fb_events b (interests_query today ints) in
             case r_error r of
               Some err \<Rightarrow> (Inl err, [interests_query today ints])
             | None \<Rightarrow> (Inr (rows_or_empty (r_data r)), [interests_query today ints])))"

text \<open>
  Step 3: \<^verbatim>\<open>if (fetchedEvents.length === 0)\<close> the fallback query is awaited;
  \<^verbatim>\<open>if (error) throw error; fetchedEvents = data || []\<close>.
\<close>

definition fallback ::
  "feed_backend \<Rightarrow> string \<Rightarrow> featured_event list \<Rightarrow> (failure + featured_event list) \<times> query list" where
  "fallback b today fetchedEvents =
     (if fetchedEvents = [] then
        (let r = fb_events b (fallback_query today) in
         case r_error r of
           Some err \<Rightarrow> (Inl err, [fallback_query today])
         | None \<Rightarrow> (Inr (rows_or_empty (r_data r)), [fallback_query today]))
      else (Inr fetchedEvents, []))"

text \<open>The outcome of step 2 in a run: the thrown value, or \<^verbatim>\<open>fetchedEvents\<close> after it.\<close>

definition step2_outcome ::
  "feed_backend \<Rightarrow> string \<Rightarrow> user option \<Rightarrow> failure + featured_event list" where
  "step2_outcome b today usr = fst (by_interests b today (fst (read_interests b usr)))"

text \<open>The body of the \<^verbatim>\<open>try\<close> block: the three steps in order, a throw ending it.\<close>

definition feed_try ::
  "feed_backend \<Rightarrow> string \<Rightarrow> user option \<Rightarrow> (failure + featured_event list) \<times> query list" where
  "feed_try b today usr =
     (let (userInterests, issued1) = read_interests b usr;
          (step2, issued2) = by_interests b today userInterests
      in case step2 of
           Inl err \<Rightarrow> (Inl err, issued1 @ issued2)
         | Inr fetchedEvents \<Rightarrow>
             (let (step3, issued3) = fallback b today fetchedEvents
              in (step3, issued1 @ issued2 @ issued3)))"

text \<open>
  \<^verbatim>\<open>fetchFeaturedEvents\<close>: \<^verbatim>\<open>setFeaturedEvents(fetchedEvents)\<close> at the end of the
  \<^verbatim>\<open>try\<close>, \<^verbatim>\<open>setFeaturedEvents([])\<close> in the \<^verbatim>\<open>catch\<close>,
  \<^verbatim>\<open>setLoadingFeaturedEvents(false)\<close> in the \<^verbatim>\<open>finally\<close>. \<open>today\<close> is the clock
  reading of the run. The result is the component state after the run and the queries
  issued, in order.
\<close>

definition fetchFeaturedEvents ::
  "feed_backend \<Rightarrow> string \<Rightarrow> user option \<Rightarrow> feed_state \<Rightarrow> feed_state \<times> query list" where
  "fetchFeaturedEvents b today usr s =
     (case feed_try b today usr of
        (Inl err, issued) \<Rightarrow> (s\<lparr>featuredEvents := [], loadingFeaturedEvents := False\<rparr>, issued)
      | (Inr fetchedEvents, issued) \<Rightarrow>
          (s\<lparr>featuredEvents := fetchedEvents, loadingFeaturedEvents := False\<rparr>, issued))"

section \<open>The backend behind the query client\<close>

text \<open>
  Modelled from the spec: the hosted backend and its query client are an external
  collaborator, not part of the sources. Section 6 of the specification gives the
  interface, \<^verbatim>\<open>queryRows(table, filters, ordering?, limit?) -> list of row | Error\<close>,
  with filters for equality and for case-insensitive pattern match, combinable with OR.
  The definitions of this section say what an answer to a query is; the components above
  do not depend on them.

  The pattern match (\<^verbatim>\<open>ILIKE\<close>): \<^verbatim>\<open>%\<close> stands for any run of characters,
  \<^verbatim>\<open>_\<close> for any one character, letters match without regard to case.
\<close>

definition lower :: "char \<Rightarrow> char" where
  "lower c = (if CHR ''A'' \<le> c \<and> c \<le> CHR ''Z'' then char_of (of_char c + (32::nat)) else c)"

fun like :: "string \<Rightarrow> string \<Rightarrow> bool" where
  "like [] s = (s = [])"
| "like (p # ps) [] = (p = CHR ''%'' \<and> like ps [])"
| "like (p # ps) (c # cs) =
     (if p = CHR ''%'' then like ps (c # cs) \<or> like (p # ps) cs
      else (p = CHR ''_'' \<or> p = c) \<and> like ps cs)"

definition ilike :: "string \<Rightarrow> string \<Rightarrow> bool" where
  "ilike pattern s = like (map lower pattern) (map lower s)"

text \<open>
  Modelled from the spec: the or-filter of the query client, "filters ... combinable
  with OR". Its argument is a string in the syntax of the client: conditions separated
  by commas, each of the form \<^verbatim>\<open>column.operator.value\<close>. Parentheses group conditions
  in that syntax; no grouping is interpreted here, and a string with a parenthesis, or
  with an item that is not a condition, is refused: the request fails.
\<close>

fun split_on :: "char \<Rightarrow> string \<Rightarrow> string list" where
  "split_on d [] = [[]]"
| "split_on d (c # cs) =
     (if c = d then [] # split_on d cs
      else (case split_on d cs of [] \<Rightarrow> [[c]] | w # ws \<Rightarrow> (c # w) # ws))"

type_synonym condition = "string \<times> string \<times> string"

definition parse_condition :: "string \<Rightarrow> condition option" where
  "parse_condition item =
     (let column = takeWhile (\<lambda>c. c \<noteq> CHR ''.'') item
      in case dropWhile (\<lambda>c. c \<noteq> CHR ''.'') item of
           [] \<Rightarrow> None
         | dot # rest \<Rightarrow>
             (let operator = takeWhile (\<lambda>c. c \<noteq> CHR ''.'') rest
              in case dropWhile (\<lambda>c. c \<noteq> CHR ''.'') rest of
                   [] \<Rightarrow> None
                 | dot' # v \<Rightarrow>
                     if column \<noteq> [] \<and> operator \<in> {''ilike'', ''eq'', ''gte''}
                     then Some (column, operator, v) else None))"

definition parse_or :: "string \<Rightarrow> condition list option" where
  "parse_or s =
     (if CHR ''('' \<in> set s \<or> CHR '')'' \<in> set s then None
      else those (map parse_condition (split_on CHR '','' s)))"

text \<open>
  A row type is read through its columns: \<open>col c r\<close> is the value of column \<open>c\<close> in row
  \<open>r\<close>, \<open>None\<close> for \<^verbatim>\<open>null\<close> or a column the row does not have.
\<close>

definition condition_holds ::
  "(string \<Rightarrow> 'r \<Rightarrow> string option) \<Rightarrow> 'r \<Rightarrow> condition \<Rightarrow> bool" where
  "condition_holds col r cond =
     (case cond of (column, operator, v) \<Rightarrow>
        (case col column r of
           None \<Rightarrow> False
         | Some x \<Rightarrow>
             if operator = ''ilike'' then ilike v x
             else if operator = ''eq'' then x = v
             else if operator = ''gte'' then v \<le> x
             else False))"

fun holds :: "(string \<Rightarrow> 'r \<Rightarrow> string option) \<Rightarrow> 'r \<Rightarrow> filter \<Rightarrow> bool" where
  "holds col r (Gte c v) = (case col c r of None \<Rightarrow> False | Some x \<Rightarrow> v \<le> x)"
| "holds col r (In_list c vs) = (case col c r of None \<Rightarrow> False | Some x \<Rightarrow> x \<in> set vs)"
| "holds col r (Eq c v) = (col c r = Some v)"
| "holds col r (Or_string s) =
     (case parse_or s of None \<Rightarrow> False | Some conds \<Rightarrow> \<exists>cond\<in>set conds. condition_holds col r cond)"

text \<open>A request is refused when one of its or-strings is.\<close>

definition refused :: "query \<Rightarrow> bool" where
  "refused q \<longleftrightarrow> (\<exists>f\<in>set (q_filters q). case f of Or_string s \<Rightarrow> parse_or s = None | _ \<Rightarrow> False)"

definition parse_failure :: failure where
  "parse_failure = \<lparr>instanceof_Error = False, message = ''failed to parse logic tree''\<rparr>"

text \<open>The sort key of a row: \<^verbatim>\<open>null\<close> sorts after every value in ascending order.\<close>

definition order_key :: "(string \<Rightarrow> 'r \<Rightarrow> string option) \<Rightarrow> string \<Rightarrow> 'r \<Rightarrow> bool \<times> string" where
  "order_key col c r = (case col c r of None \<Rightarrow> (True, []) | Some v \<Rightarrow> (False, v))"

definition ordered ::
  "(string \<Rightarrow> 'r \<Rightarrow> string option) \<Rightarrow> (string \<times> bool) option \<Rightarrow> 'r list \<Rightarrow> 'r list" where
  "ordered col ord rows =
     (case ord of
        None \<Rightarrow> rows
      | Some (c, ascending) \<Rightarrow>
          if ascending then sort_key (order_key col c) rows
          else rev (sort_key (order_key col c) rows))"

definition limited :: "nat option \<Rightarrow> 'r list \<Rightarrow> 'r list" where
  "limited lim rows = (case lim of None \<Rightarrow> rows | Some n \<Rightarrow> take n rows)"

text \<open>
  Modelled from the spec: \<^verbatim>\<open>queryRows\<close> of the backend interface, the rows of the
  table that pass every filter, in the requested order, cut at the limit.
\<close>

definition queryRows :: "(string \<Rightarrow> 'r \<Rightarrow> string option) \<Rightarrow> 'r list \<Rightarrow> query \<Rightarrow> 'r list" where
  "queryRows col tbl q =
     limited (q_limit q) (ordered col (q_order q)
       (filter (\<lambda>r. \<forall>f\<in>set (q_filters q). holds col r f) tbl))"

text \<open>
  What a component may expect of the rows it gets back for a query: each passes the
  query's filters, they come in the query's order, and there are no more than its limit.
\<close>

definition in_order ::
  "(string \<Rightarrow> 'r \<Rightarrow> string option) \<Rightarrow> (string \<times> bool) option \<Rightarrow> 'r list \<Rightarrow> bool" where
  "in_order col ord rows =
     (case ord of
        None \<Rightarrow> True
      | Some (c, ascending) \<Rightarrow>
          if ascending then sorted (map (order_key col c) rows)
          else sorted (rev (map (order_key col c) rows)))"

definition within_limit :: "nat option \<Rightarrow> 'r list \<Rightarrow> bool" where
  "within_limit lim rows = (case lim of None \<Rightarrow> True | Some n \<Rightarrow> length rows \<le> n)"

definition honours :: "(string \<Rightarrow> 'r \<Rightarrow> string option) \<Rightarrow> query \<Rightarrow> 'r list \<Rightarrow> bool" where
  "honours col q rows \<longleftrightarrow>
     (\<forall>r\<in>set rows. \<forall>f\<in>set (q_filters q). holds col r f) \<and>
     in_order col (q_order q) rows \<and> within_limit (q_limit q) rows"

subsection \<open>The tables the home page reads\<close>

definition event_column :: "string \<Rightarrow> featured_event \<Rightarrow> string option" where
  "event_column c e =
     (if c = ''id'' then Some (fe_id e)
      else if c = ''title'' then Some (fe_title e)
      else if c = ''date'' then Some (fe_date e)
      else if c = ''image_url'' then fe_image_url e
      else if c = ''category'' then fe_category e
      else None)"

text \<open>A column that is not selected is absent from the row that comes back.\<close>

definition select_event :: "string list \<Rightarrow> featured_event \<Rightarrow> featured_event" where
  "select_event cols e =
     e\<lparr>fe_image_url := (if ''image_url'' \<in> set cols then fe_image_url e else None),
       fe_club := (if ''club:clubs(name)'' \<in> set cols then fe_club e else None),
       fe_category := (if ''category'' \<in> set cols then fe_category e else None)\<rparr>"

definition profile_column :: "string \<Rightarrow> string \<times> profile \<Rightarrow> string option" where
  "profile_column c row = (if c = ''id'' then Some (fst row) else None)"

record feed_db =
  db_profiles :: "(string \<times> profile) list"
  db_events :: "featured_event list"

definition not_one_row :: failure where
  "not_one_row =
     \<lparr>instanceof_Error = False,
      message = ''JSON object requested, multiple (or no) rows returned''\<rparr>"

text \<open>
  Modelled from the spec: the client over given table contents. \<open>faults q\<close> is the
  failure of the request for \<open>q\<close>, if it fails (network or server); a failed request
  carries no data. A \<^verbatim>\<open>.single()\<close> request fails unless exactly one row matches.
\<close>

definition feed_client :: "feed_db \<Rightarrow> (query \<Rightarrow> failure option) \<Rightarrow> feed_backend" where
  "feed_client db faults =
     \<lparr>fb_profiles = (\<lambda>q.
        case faults q of
          Some err \<Rightarrow> \<lparr>r_data = None, r_error = Some err\<rparr>
        | None \<Rightarrow>
            (case queryRows profile_column (db_profiles db) q of
               [row] \<Rightarrow> \<lparr>r_data = Some (snd row), r_error = None\<rparr>
             | _ \<Rightarrow> \<lparr>r_data = None, r_error = Some not_one_row\<rparr>)),
      fb_events = (\<lambda>q.
        case faults q of
          Some err \<Rightarrow> \<lparr>r_data = None, r_error = Some err\<rparr>
        | None \<Rightarrow>
            \<lparr>r_data = Some (map (select_event (q_select q)) (queryRows event_column (db_events db) q)),
             r_error = None\<rparr>)\<rparr>"

definition no_faults :: "query \<Rightarrow> failure option" where
  "no_faults q = None"

section \<open>The search page\<close>

record search_event =
  se_id :: string
  se_title :: string
  se_date :: string
  se_description :: string

record search_club =
  sc_id :: string
  sc_name :: string
  sc_description :: string

record search_announcement =
  sa_id :: string
  sa_title :: string
  sa_content :: string
  sa_created_at :: string

record search_backend =
  sb_events :: "query \<Rightarrow> search_event list response"
  sb_clubs :: "query \<Rightarrow> search_club list response"
  sb_announcements :: "query \<Rightarrow> search_announcement list response"

text \<open>The five \<^verbatim>\<open>useState\<close> cells of \<^verbatim>\<open>SearchPage\<close> and their initial values.\<close>

record search_state =
  sp_events :: "search_event list"
  sp_clubs :: "search_club list"
  sp_announcements :: "search_announcement list"
  sp_loading :: bool
  sp_error :: "string option"

definition search_initial :: search_state where
  "search_initial =
     \<lparr>sp_events = [], sp_clubs = [], sp_announcements = [], sp_loading = True, sp_error = None\<rparr>"

text \<open>
  The three queries. The or-filter is the template string of the source,
  \<^verbatim>\<open>`title.ilike.${searchTerm},description.ilike.${searchTerm}`\<close>, with the search
  term pasted in as it is.
\<close>

definition events_search :: "string \<Rightarrow> query" where
  "events_search searchTerm =
     \<lparr>q_table = ''events'', q_select = [''id'', ''title'', ''date'', ''description''],
      q_filters = [Or_string (''title.ilike.'' @ searchTerm @ '',description.ilike.'' @ searchTerm)],
      q_order = None, q_limit = Some 10, q_single = False\<rparr>"

definition clubs_search :: "string \<Rightarrow> query" where
  "clubs_search searchTerm =
     \<lparr>q_table = ''clubs'', q_select = [''id'', ''name'', ''description''],
      q_filters = [Or_string (''name.ilike.'' @ searchTerm @ '',description.ilike.'' @ searchTerm)],
      q_order = None, q_limit = Some 10, q_single = False\<rparr>"

definition announcements_search :: "string \<Rightarrow> query" where
  "announcements_search searchTerm =
     \<lparr>q_table = ''announcements'', q_select = [''id'', ''title'', ''content'', ''created_at''],
      q_filters = [Or_string (''title.ilike.'' @ searchTerm @ '',content.ilike.'' @ searchTerm)],
      q_order = Some (''created_at'', False), q_limit = Some 10, q_single = False\<rparr>"

text \<open>
  The \<^verbatim>\<open>catch\<close> and \<^verbatim>\<open>finally\<close> of \<^verbatim>\<open>performSearch\<close>:
  \<^verbatim>\<open>setError(err instanceof Error ? err.message : 'Failed to perform search')\<close>, then
  \<^verbatim>\<open>setLoading(false)\<close>.
\<close>

definition search_failed :: "failure \<Rightarrow> search_state \<Rightarrow> search_state" where
  "search_failed err s =
     s\<lparr>sp_error := Some (error_text err ''Failed to perform search''), sp_loading := False\<rparr>"

text \<open>
  \<^verbatim>\<open>performSearch\<close>, run from start to end with no other code in between.
  \<^verbatim>\<open>query\<close> is \<^verbatim>\<open>searchParams.get('q')\<close>, a string or \<^verbatim>\<open>null\<close>; \<^verbatim>\<open>!query\<close> holds
  for \<^verbatim>\<open>null\<close> and for the empty string. Each query is awaited before the next is
  built, and \<^verbatim>\<open>if (xError) throw xError\<close> follows each. The result is the state after
  the run and the queries issued, in order.
\<close>

definition performSearch ::
  "search_backend \<Rightarrow> string option \<Rightarrow> search_state \<Rightarrow> search_state \<times> query list" where
  "performSearch b query s =
     (case query of
        None \<Rightarrow> (s\<lparr>sp_loading := False\<rparr>, [])
      | Some q \<Rightarrow>
          if q = [] then (s\<lparr>sp_loading := False\<rparr>, [])
          else
            (let s0 = s\<lparr>sp_loading := True, sp_error := None,
                       sp_events := [], sp_clubs := [], sp_announcements := []\<rparr>;
                 searchTerm = ''%'' @ q @ ''%'';
                 eventsR = sb_events b (events_search searchTerm)
             in case r_error eventsR of
                  Some err \<Rightarrow> (search_failed err s0, [events_search searchTerm])
                | None \<Rightarrow>
                    (let s1 = s0\<lparr>sp_events := rows_or_empty (r_data eventsR)\<rparr>;
                         clubsR = sb_clubs b (clubs_search searchTerm)
                     in case r_error clubsR of
                          Some err \<Rightarrow>
                            (search_failed err s1,
                             [events_search searchTerm, clubs_search searchTerm])
                        | None \<Rightarrow>
                            (let s2 = s1\<lparr>sp_clubs := rows_or_empty (r_data clubsR)\<rparr>;
                                 announcementsR =
                                   sb_announcements b (announcements_search searchTerm)
                             in case r_error announcementsR of
                                  Some err \<Rightarrow>
                                    (search_failed err s2,
                                     [events_search searchTerm, clubs_search searchTerm,
                                      announcements_search searchTerm])
                                | None \<Rightarrow>
                                    (s2\<lparr>sp_announcements :=
                                          rows_or_empty (r_data announcementsR),
                                        sp_loading := False\<rparr>,
                                     [events_search searchTerm, clubs_search searchTerm,
                                      announcements_search searchTerm])))))"


text \<open>
  What the page renders from its state: \<^verbatim>\<open>{loading && ..}\<close>, \<^verbatim>\<open>{error && ..}\<close>, and
  under \<^verbatim>\<open>{!loading && !error && (..)}\<close> either "No results found." or one section per
  non-empty list. A string is truthy when it is not empty.
\<close>

definition truthy :: "string option \<Rightarrow> bool" where
  "truthy v = (case v of None \<Rightarrow> False | Some text \<Rightarrow> text \<noteq> [])"

record search_view =
  shows_searching :: bool
  shown_error :: "string option"
  shows_no_results :: bool
  shown_events :: "search_event list"
  shown_clubs :: "search_club list"
  shown_announcements :: "search_announcement list"

definition render_search :: "search_state \<Rightarrow> search_view" where
  "render_search s =
     (let results = (\<not> sp_loading s \<and> \<not> truthy (sp_error s));
          nothing = (sp_events s = [] \<and> sp_clubs s = [] \<and> sp_announcements s = [])
      in \<lparr>shows_searching = sp_loading s,
          shown_error = (if truthy (sp_error s) then sp_error s else None),
          shows_no_results = (results \<and> nothing),
          shown_events = (if results then sp_events s else []),
          shown_clubs = (if results then sp_clubs s else []),
          shown_announcements = (if results then sp_announcements s else [])\<rparr>)"

subsection \<open>Searches that overlap\<close>

text \<open>
  \<^verbatim>\<open>performSearch\<close> is an \<^verbatim>\<open>async\<close> function: it runs until an \<^verbatim>\<open>await\<close>, gives
  control back, and goes on when the response arrives. The effect
  \<^verbatim>\<open>useEffect(() => { .. performSearch() }, [query])\<close> starts a new run whenever the
  query changes and has no cleanup, so an earlier run that is still waiting goes on as
  well. A run that waits is its search term and the response it waits for.
\<close>

datatype awaiting = Events_response | Clubs_response | Announcements_response

record search_run =
  run_term :: string
  run_awaits :: awaiting

text \<open>From the call to the first \<^verbatim>\<open>await\<close>.\<close>

definition start_search ::
  "string option \<Rightarrow> search_state \<Rightarrow> search_state \<times> search_run option \<times> query list" where
  "start_search query s =
     (case query of
        None \<Rightarrow> (s\<lparr>sp_loading := False\<rparr>, None, [])
      | Some q \<Rightarrow>
          if q = [] then (s\<lparr>sp_loading := False\<rparr>, None, [])
          else
            (s\<lparr>sp_loading := True, sp_error := None,
               sp_events := [], sp_clubs := [], sp_announcements := []\<rparr>,
             Some \<lparr>run_term = ''%'' @ q @ ''%'', run_awaits = Events_response\<rparr>,
             [events_search (''%'' @ q @ ''%'')]))"

text \<open>From the arrival of the awaited response to the next \<^verbatim>\<open>await\<close>, or to the end.\<close>

definition resume_search ::
  "search_backend \<Rightarrow> search_run \<Rightarrow> search_state \<Rightarrow>
     search_state \<times> search_run option \<times> query list" where
  "resume_search b run s =
     (case run_awaits run of
        Events_response \<Rightarrow>
          (let eventsR = sb_events b (events_search (run_term run))
           in case r_error eventsR of
                Some err \<Rightarrow> (search_failed err s, None, [])
              | None \<Rightarrow>
                  (s\<lparr>sp_events := rows_or_empty (r_data eventsR)\<rparr>,
                   Some (run\<lparr>run_awaits := Clubs_response\<rparr>),
                   [clubs_search (run_term run)]))
      | Clubs_response \<Rightarrow>
          (let clubsR = sb_clubs b (clubs_search (run_term run))
           in case r_error clubsR of
                Some err \<Rightarrow> (search_failed err s, None, [])
              | None \<Rightarrow>
                  (s\<lparr>sp_clubs := rows_or_empty (r_data clubsR)\<rparr>,
                   Some (run\<lparr>run_awaits := Announcements_response\<rparr>),
                   [announcements_search (run_term run)]))
      | Announcements_response \<Rightarrow>
          (let announcementsR = sb_announcements b (announcements_search (run_term run))
           in case r_error announcementsR of
                Some err \<Rightarrow> (search_failed err s, None, [])
              | None \<Rightarrow>
                  (s\<lparr>sp_announcements := rows_or_empty (r_data announcementsR),
                     sp_loading := False\<rparr>,
                   None, [])))"

text \<open>
  The page over time: its state and the runs that wait, oldest first. Either the query
  changes, which starts a run, or the response that the \<open>i\<close>-th waiting run awaits
  arrives, which resumes that run.
\<close>

datatype occurrence = Query_changes "string option" | Response_arrives nat

fun occur ::
  "search_backend \<Rightarrow> search_state \<times> search_run list \<Rightarrow> occurrence \<Rightarrow>
     search_state \<times> search_run list" where
  "occur b (s, runs) (Query_changes query) =
     (case start_search query s of
        (s', None, issued) \<Rightarrow> (s', runs)
      | (s', Some run, issued) \<Rightarrow> (s', runs @ [run]))"
| "occur b (s, runs) (Response_arrives i) =
     (if i < length runs then
        (case resume_search b (runs ! i) s of
           (s', None, issued) \<Rightarrow> (s', take i runs @ drop (Suc i) runs)
         | (s', Some run, issued) \<Rightarrow> (s', runs[i := run]))
      else (s, runs))"

definition page_after ::
  "search_backend \<Rightarrow> occurrence list \<Rightarrow> search_state \<times> search_run list \<Rightarrow>
     search_state \<times> search_run list" where
  "page_after b occurrences page = foldl (occur b) page occurrences"

subsection \<open>The tables the search page reads\<close>

definition search_event_column :: "string \<Rightarrow> search_event \<Rightarrow> string option" where
  "search_event_column c e =
     (if c = ''id'' then Some (se_id e)
      else if c = ''title'' then Some (se_title e)
      else if c = ''date'' then Some (se_date e)
      else if c = ''description'' then Some (se_description e)
      else None)"

definition search_club_column :: "string \<Rightarrow> search_club \<Rightarrow> string option" where
  "search_club_column c k =
     (if c = ''id'' then Some (sc_id k)
      else if c = ''name'' then Some (sc_name k)
      else if c = ''description'' then Some (sc_description k)
      else None)"

definition search_announcement_column :: "string \<Rightarrow> search_announcement \<Rightarrow> string option" where
  "search_announcement_column c a =
     (if c = ''id'' then Some (sa_id a)
      else if c = ''title'' then Some (sa_title a)
      else if c = ''content'' then Some (sa_content a)
      else if c = ''created_at'' then Some (sa_created_at a)
      else None)"

record search_db =
  sdb_events :: "search_event list"
  sdb_clubs :: "search_club list"
  sdb_announcements :: "search_announcement list"

text \<open>
  The answer to a request: the failure, if the request fails or is refused, the rows
  otherwise.
\<close>

definition answer :: "(query \<Rightarrow> failure option) \<Rightarrow> (query \<Rightarrow> 'r list) \<Rightarrow> query \<Rightarrow> 'r list response" where
  "answer faults rows q =
     (case faults q of
        Some err \<Rightarrow> \<lparr>r_data = None, r_error = Some err\<rparr>
      | None \<Rightarrow>
          if refused q then \<lparr>r_data = None, r_error = Some parse_failure\<rparr>
          else \<lparr>r_data = Some (rows q), r_error = None\<rparr>)"

text \<open>
  Modelled from the spec: the client over given table contents, as for the home page.
\<close>

definition search_client :: "search_db \<Rightarrow> (query \<Rightarrow> failure option) \<Rightarrow> search_backend" where
  "search_client db faults =
     \<lparr>sb_events = answer faults (queryRows search_event_column (sdb_events db)),
      sb_clubs = answer faults (queryRows search_club_column (sdb_clubs db)),
      sb_announcements =
        answer faults (queryRows search_announcement_column (sdb_announcements db))\<rparr>"

section \<open>The edit-announcement form\<close>

record announcement =
  an_id :: string
  an_title :: string
  an_content :: string
  an_created_at :: string
  an_created_by :: "string option"

text \<open>The four \<^verbatim>\<open>useState\<close> cells of \<^verbatim>\<open>EditAnnouncementModal\<close>.\<close>

record edit_state =
  em_title :: string
  em_content :: string
  em_loading :: bool
  em_error :: "string option"

text \<open>
  \<^verbatim>\<open>String.prototype.trim\<close> drops white space at both ends. Characters here are
  8-bit code units; of the white space of the language these are tab, line feed,
  vertical tab, form feed, carriage return, space and no-break space.
\<close>

definition is_space :: "char \<Rightarrow> bool" where
  "is_space c \<longleftrightarrow> (of_char c :: nat) \<in> {9, 10, 11, 12, 13, 32, 160}"

definition trim :: "string \<Rightarrow> string" where
  "trim s = rev (dropWhile is_space (rev (dropWhile is_space s)))"

text \<open>\<^verbatim>\<open>from(table).update(values).eq(column, value)\<close>\<close>

record update_query =
  u_table :: string
  u_values :: "(string \<times> string) list"
  u_filters :: "filter list"

text \<open>\<^verbatim>\<open>user && (user.id === announcement.created_by || user.is_admin)\<close>\<close>

definition may_edit :: "user option \<Rightarrow> announcement \<Rightarrow> bool" where
  "may_edit usr a =
     (case usr of
        None \<Rightarrow> False
      | Some u \<Rightarrow> an_created_by a = Some (user_id u) \<or> is_admin u)"

text \<open>
  \<^verbatim>\<open>handleSubmit\<close>. The backend answers an update with its \<^verbatim>\<open>error\<close>, if any. The
  result is the state after the call, the updates issued, and whether \<^verbatim>\<open>onClose\<close>
  was called.
\<close>

definition handleSubmit ::
  "(update_query \<Rightarrow> failure option) \<Rightarrow> user option \<Rightarrow> announcement option \<Rightarrow> edit_state \<Rightarrow>
     edit_state \<times> update_query list \<times> bool" where
  "handleSubmit backend usr announcement s =
     (case announcement of
        None \<Rightarrow> (s\<lparr>em_error := Some ''No announcement selected for editing.''\<rparr>, [], False)
      | Some a \<Rightarrow>
          if \<not> may_edit usr a then
            (s\<lparr>em_error := Some ''You don't have permission to edit this announcement.''\<rparr>,
             [], False)
          else if trim (em_title s) = [] \<or> trim (em_content s) = [] then
            (s\<lparr>em_error := Some ''Title and content cannot be empty.''\<rparr>, [], False)
          else
            (let upd = \<lparr>u_table = ''announcements'',
                        u_values = [(''title'', trim (em_title s)),
                                    (''content'', trim (em_content s))],
                        u_filters = [Eq ''id'' (an_id a)]\<rparr>
             in case backend upd of
                  Some updateError \<Rightarrow>
                    (s\<lparr>em_loading := False,
                       em_error := Some (error_text updateError ''Failed to update announcement.'')\<rparr>,
                     [upd], False)
                | None \<Rightarrow> (s\<lparr>em_loading := False, em_error := None\<rparr>, [upd], True)))"

definition announcement_column :: "string \<Rightarrow> announcement \<Rightarrow> string option" where
  "announcement_column c a =
     (if c = ''id'' then Some (an_id a)
      else if c = ''title'' then Some (an_title a)
      else if c = ''content'' then Some (an_content a)
      else if c = ''created_at'' then Some (an_created_at a)
      else if c = ''created_by'' then an_created_by a
      else None)"

definition assign :: "string \<times> string \<Rightarrow> announcement \<Rightarrow> announcement" where
  "assign cv a =
     (if fst cv = ''id'' then a\<lparr>an_id := snd cv\<rparr>
      else if fst cv = ''title'' then a\<lparr>an_title := snd cv\<rparr>
      else if fst cv = ''content'' then a\<lparr>an_content := snd cv\<rparr>
      else if fst cv = ''created_at'' then a\<lparr>an_created_at := snd cv\<rparr>
      else if fst cv = ''created_by'' then a\<lparr>an_created_by := Some (snd cv)\<rparr>
      else a)"

text \<open>
  Modelled from the spec: \<^verbatim>\<open>updateRow\<close> of the backend interface (section 6 of the
  specification names it; the backend is not part of the sources): every row that
  passes the filters gets the given column values, every other row stays as it is.
\<close>

definition updateRow :: "update_query \<Rightarrow> announcement list \<Rightarrow> announcement list" where
  "updateRow upd tbl =
     map (\<lambda>a. if (\<forall>f\<in>set (u_filters upd). holds announcement_column a f)
               then fold assign (u_values upd) a else a) tbl"

section \<open>The clubs page\<close>

record club =
  c_id :: string
  c_name :: string
  c_description :: string
  c_category :: string
  c_meeting_time :: string
  c_location :: string
  c_email :: string
  c_website :: string
  c_image_url :: string
  c_is_member :: "bool option"
  c_created_by :: "string option"










section \<open>Sample data\<close>

definition server_error :: failure where
  "server_error = \<lparr>instanceof_Error = False, message = ''upstream request timeout''\<rparr>"

definition sports_event :: featured_event where
  "sports_event =
     \<lparr>fe_id = ''e-17'', fe_title = ''Five-a-side final'', fe_date = ''2026-11-03'',
      fe_image_url = None, fe_club = Some [''Football Club''], fe_category = Some ''sports''\<rparr>"

definition past_concert :: featured_event where
  "past_concert =
     \<lparr>fe_id = ''e-09'', fe_title = ''Autumn concert'', fe_date = ''2026-10-20'',
      fe_image_url = None, fe_club = Some [''Choir''], fe_category = Some ''music''\<rparr>"

definition campus_db :: feed_db where
  "campus_db =
     \<lparr>db_profiles = [(''u-1'', \<lparr>interests = Some [''music'']\<rparr>)],
      db_events = [past_concert, sports_event]\<rparr>"

definition music_fan :: user where
  "music_fan = \<lparr>user_id = ''u-1'', is_admin = False\<rparr>"

definition feed_initial :: feed_state where
  "feed_initial = \<lparr>featuredEvents = [], loadingFeaturedEvents = True\<rparr>"

definition profiles_down :: "query \<Rightarrow> failure option" where
  "profiles_down q = (if q_table q = ''profiles'' then Some server_error else None)"

definition events_down :: "query \<Rightarrow> failure option" where
  "events_down q = (if q_table q = ''events'' then Some server_error else None)"

definition hackathon :: search_event where
  "hackathon =
     \<lparr>se_id = ''e-1'', se_title = ''Spring Hackathon'', se_date = ''2026-11-20'',
      se_description = ''Build something in a weekend''\<rparr>"

definition book_fair :: search_event where
  "book_fair =
     \<lparr>se_id = ''e-2'', se_title = ''Book fair'', se_date = ''2026-12-01'',
      se_description = ''Second-hand textbooks''\<rparr>"

definition hack_night :: search_club where
  "hack_night =
     \<lparr>sc_id = ''c-1'', sc_name = ''Hack Night Club'', sc_description = ''Weekly coding evenings''\<rparr>"

definition book_circle :: search_club where
  "book_circle =
     \<lparr>sc_id = ''c-2'', sc_name = ''Reading circle'', sc_description = ''One book a month''\<rparr>"

definition signup_notice :: search_announcement where
  "signup_notice =
     \<lparr>sa_id = ''a-1'', sa_title = ''Sign-up open'', sa_content = ''The hackathon takes teams of four'',
      sa_created_at = ''2026-10-30T09:00:00''\<rparr>"

definition library_notice :: search_announcement where
  "library_notice =
     \<lparr>sa_id = ''a-2'', sa_title = ''Library hours'', sa_content = ''Book returns close at six'',
      sa_created_at = ''2026-10-31T09:00:00''\<rparr>"

definition library_db :: search_db where
  "library_db =
     \<lparr>sdb_events = [hackathon, book_fair], sdb_clubs = [hack_night, book_circle],
      sdb_announcements = [signup_notice, library_notice]\<rparr>"


text \<open>
  The query changes to \<^verbatim>\<open>hack\<close> and then to \<^verbatim>\<open>book\<close> before any response is
  back; the three responses for \<^verbatim>\<open>book\<close> arrive first, those for \<^verbatim>\<open>hack\<close> after.
\<close>

definition late_answers :: "occurrence list" where
  "late_answers =
     [Query_changes (Some ''hack''), Query_changes (Some ''book''),
      Response_arrives 1, Response_arrives 1, Response_arrives 1,
      Response_arrives 0, Response_arrives 0, Response_arrives 0]"

definition exam_notice :: announcement where
  "exam_notice =
     \<lparr>an_id = ''a-7'', an_title = ''Exam timetable'', an_content = ''Published on Monday'',
      an_created_at = ''2026-10-28T08:00:00'', an_created_by = Some ''u-1''\<rparr>"

definition other_notice :: announcement where
  "other_notice =
     \<lparr>an_id = ''a-8'', an_title = ''Canteen closed'', an_content = ''Friday only'',
      an_created_at = ''2026-10-29T08:00:00'', an_created_by = Some ''u-2''\<rparr>"

definition visitor :: user where
  "visitor = \<lparr>user_id = ''u-3'', is_admin = False\<rparr>"

definition edited_form :: edit_state where
  "edited_form =
     \<lparr>em_title = ''  Exam timetable (updated) '', em_content = ''Published on Tuesday'',
      em_loading = False, em_error = None\<rparr>"

definition accepts_all :: "update_query \<Rightarrow> failure option" where
  "accepts_all upd = None"






section \<open>Properties of the featured-events feed\<close>

lemma issued_by_interests:
  "set (snd (by_interests b today ui)) \<subseteq> {q. \<exists>ints. q = interests_query today ints}"
  by (auto simp: by_interests_def Let_def split: option.splits)

lemma issued_read_interests:
  "set (snd (read_interests b usr)) \<subseteq> {q. \<exists>uid. q = profile_query uid}"
  by (auto simp: read_interests_def split: option.splits)

lemma fallback_query_distinct:
  "fallback_query today \<noteq> interests_query today' ints"
  "fallback_query today \<noteq> profile_query uid"
  by (simp_all add: fallback_query_def interests_query_def profile_query_def)

lemma fallback_not_before_step3:
  "fallback_query today \<notin> set (snd (read_interests b usr) @ snd (by_interests b today' ui))"
  using issued_by_interests[of b today' ui] issued_read_interests[of b usr]
    fallback_query_distinct
  by auto

text \<open>The ways in which step 2 ends with no row, without a throw.\<close>

lemma no_rows_cases:
  "step2_outcome b today None = Inr []"
  "fst (read_interests b usr) = None \<Longrightarrow> step2_outcome b today usr = Inr []"
  "fst (read_interests b usr) = Some [] \<Longrightarrow> step2_outcome b today usr = Inr []"
  "fst (read_interests b usr) = Some ints \<Longrightarrow>
     r_error (fb_events b (interests_query today ints)) = None \<Longrightarrow>
     rows_or_empty (r_data (fb_events b (interests_query today ints))) = [] \<Longrightarrow>
     step2_outcome b today usr = Inr []"
  by (auto simp: step2_outcome_def by_interests_def read_interests_def Let_def
      split: option.splits)

lemma fetch_after_no_rows:
  assumes "step2_outcome b today usr = Inr []"
  shows "snd (fetchFeaturedEvents b today usr s) \<noteq> []"
    "last (snd (fetchFeaturedEvents b today usr s)) = fallback_query today"
    "r_error (fb_events b (fallback_query today)) = None \<Longrightarrow>
       featuredEvents (fst (fetchFeaturedEvents b today usr s)) =
         rows_or_empty (r_data (fb_events b (fallback_query today)))"
  using assms
  by (auto simp: step2_outcome_def fetchFeaturedEvents_def feed_try_def fallback_def Let_def
      split: prod.splits sum.splits option.splits)

lemma fetch_after_rows:
  assumes "step2_outcome b today usr = Inr personalised" "personalised \<noteq> []"
  shows "fallback_query today \<notin> set (snd (fetchFeaturedEvents b today usr s))"
    "featuredEvents (fst (fetchFeaturedEvents b today usr s)) = personalised"
  using assms fallback_not_before_step3[of today b usr today "fst (read_interests b usr)"]
  by (auto simp: step2_outcome_def fetchFeaturedEvents_def feed_try_def fallback_def Let_def
      split: prod.splits sum.splits option.splits)

text \<open>
  With interest tags and no error, step 2 ends with the rows that came back for the
  interest-filtered query, which the run has issued.
\<close>

lemma step2_rows:
  assumes "fst (read_interests b usr) = Some ints" "ints \<noteq> []"
    "r_error (fb_events b (interests_query today ints)) = None"
  shows "step2_outcome b today usr =
           Inr (rows_or_empty (r_data (fb_events b (interests_query today ints))))"
    "interests_query today ints \<in> set (snd (fetchFeaturedEvents b today usr s))"
  using assms
  by (auto simp: step2_outcome_def fetchFeaturedEvents_def feed_try_def by_interests_def
      fallback_def Let_def split: prod.splits sum.splits option.splits)

text \<open>
  Claim C1. Step 2 ends with no row when there is no user, when the user has no
  interests, and when the interest-filtered query comes back without a row; with
  interest tags and no error it ends with the rows that came back for the
  interest-filtered query (upcoming events of a category among the tags, by ascending
  date, at most three), whatever they are. Whenever step 2 ends with no row, the
  fallback query is issued, as the last query of the run: upcoming events (date at or
  after today), by ascending date, at most three, with no category filter; and the list
  set is the fallback list. When step 2 ends with rows, the fallback is not issued and
  the list set is the interest-filtered list. So the list set is one of the two lists,
  never a mix. (A run in which an events query fails sets the empty list; that is
  claim C8.)
\<close>

theorem fallback_on_no_rows_one_list:
  "step2_outcome b today None = Inr [] \<and>
   (fst (read_interests b usr) = None \<or> fst (read_interests b usr) = Some [] \<longrightarrow>
      step2_outcome b today usr = Inr []) \<and>
   (fst (read_interests b usr) = Some ints \<and>
    r_error (fb_events b (interests_query today ints)) = None \<and>
    rows_or_empty (r_data (fb_events b (interests_query today ints))) = [] \<longrightarrow>
      step2_outcome b today usr = Inr []) \<and>
   (step2_outcome b today usr = Inr [] \<longrightarrow>
      snd (fetchFeaturedEvents b today usr s) \<noteq> [] \<and>
      last (snd (fetchFeaturedEvents b today usr s)) = fallback_query today \<and>
      q_table (fallback_query today) = ''events'' \<and>
      q_filters (fallback_query today) = [Gte ''date'' today] \<and>
      q_order (fallback_query today) = Some (''date'', True) \<and>
      q_limit (fallback_query today) = Some 3 \<and>
      (r_error (fb_events b (fallback_query today)) = None \<longrightarrow>
         featuredEvents (fst (fetchFeaturedEvents b today usr s)) =
           rows_or_empty (r_data (fb_events b (fallback_query today))))) \<and>
   (step2_outcome b today usr = Inr personalised \<and> personalised \<noteq> [] \<longrightarrow>
      fallback_query today \<notin> set (snd (fetchFeaturedEvents b today usr s)) \<and>
      featuredEvents (fst (fetchFeaturedEvents b today usr s)) = personalised) \<and>
   (fst (read_interests b usr) = Some ints \<and> ints \<noteq> [] \<and>
    r_error (fb_events b (interests_query today ints)) = None \<longrightarrow>
      step2_outcome b today usr =
        Inr (rows_or_empty (r_data (fb_events b (interests_query today ints)))) \<and>
      interests_query today ints \<in> set (snd (fetchFeaturedEvents b today usr s)) \<and>
      q_table (interests_query today ints) = ''events'' \<and>
      q_filters (interests_query today ints) =
        [Gte ''date'' today, In_list ''category'' ints] \<and>
      q_order (interests_query today ints) = Some (''date'', True) \<and>
      q_limit (interests_query today ints) = Some 3 \<and>
      (rows_or_empty (r_data (fb_events b (interests_query today ints))) \<noteq> [] \<longrightarrow>
         fallback_query today \<notin> set (snd (fetchFeaturedEvents b today usr s)) \<and>
         featuredEvents (fst (fetchFeaturedEvents b today usr s)) =
           rows_or_empty (r_data (fb_events b (interests_query today ints)))))"
proof -
  have rows: "fst (read_interests b usr) = Some ints \<and> ints \<noteq> [] \<and>
      r_error (fb_events b (interests_query today ints)) = None \<longrightarrow>
        step2_outcome b today usr =
          Inr (rows_or_empty (r_data (fb_events b (interests_query today ints)))) \<and>
        interests_query today ints \<in> set (snd (fetchFeaturedEvents b today usr s)) \<and>
        (rows_or_empty (r_data (fb_events b (interests_query today ints))) \<noteq> [] \<longrightarrow>
           fallback_query today \<notin> set (snd (fetchFeaturedEvents b today usr s)) \<and>
           featuredEvents (fst (fetchFeaturedEvents b today usr s)) =
             rows_or_empty (r_data (fb_events b (interests_query today ints))))"
    using step2_rows(1)[of b usr ints today] step2_rows(2)[of b usr ints today s]
      fetch_after_rows[of b today usr
        "rows_or_empty (r_data (fb_events b (interests_query today ints)))" s]
    by blast
  have shape: "q_table (interests_query today ints) = ''events'' \<and>
      q_filters (interests_query today ints) =
        [Gte ''date'' today, In_list ''category'' ints] \<and>
      q_order (interests_query today ints) = Some (''date'', True) \<and>
      q_limit (interests_query today ints) = Some 3"
    by (simp add: interests_query_def)
  have shape': "q_table (fallback_query today) = ''events'' \<and>
      q_filters (fallback_query today) = [Gte ''date'' today] \<and>
      q_order (fallback_query today) = Some (''date'', True) \<and>
      q_limit (fallback_query today) = Some 3"
    by (simp add: fallback_query_def)
  from rows shape shape' no_rows_cases(1)[of b today] no_rows_cases(2,3)[of b usr today]
    no_rows_cases(4)[of b usr ints today] fetch_after_no_rows[of b today usr s]
    fetch_after_rows[of b today usr personalised s]
  show ?thesis by blast
qed

theorem fallback_on_no_rows_one_list_witness:
  "step2_outcome (feed_client campus_db no_faults) ''2026-11-02'' (Some music_fan) = Inr [] \<and>
   r_error (fb_events (feed_client campus_db no_faults) (fallback_query ''2026-11-02'')) = None \<and>
   last (snd (fetchFeaturedEvents (feed_client campus_db no_faults) ''2026-11-02''
               (Some music_fan) feed_initial))
     = fallback_query ''2026-11-02'' \<and>
   featuredEvents (fst (fetchFeaturedEvents (feed_client campus_db no_faults) ''2026-11-02''
                         (Some music_fan) feed_initial))
     = rows_or_empty (r_data (fb_events (feed_client campus_db no_faults)
                                (fallback_query ''2026-11-02''))) \<and>
   rows_or_empty (r_data (fb_events (feed_client campus_db no_faults)
       (interests_query ''2026-10-02'' [''music'']))) = [past_concert] \<and>
   featuredEvents (fst (fetchFeaturedEvents (feed_client campus_db no_faults) ''2026-10-02''
                         (Some music_fan) feed_initial)) = [past_concert] \<and>
   fallback_query ''2026-10-02'' \<notin>
     set (snd (fetchFeaturedEvents (feed_client campus_db no_faults) ''2026-10-02''
                (Some music_fan) feed_initial))"
proof -
  let ?b = "feed_client campus_db no_faults"
  have h1: "step2_outcome ?b ''2026-11-02'' (Some music_fan) = Inr []"
    by code_simp
  have h2: "r_error (fb_events ?b (fallback_query ''2026-11-02'')) = None"
    by code_simp
  have k1: "fst (read_interests ?b (Some music_fan)) = Some [''music'']"
    by code_simp
  have k2: "[''music''] \<noteq> ([] :: string list)" by simp
  have k3: "r_error (fb_events ?b (interests_query ''2026-10-02'' [''music''])) = None"
    by code_simp
  have k4: "rows_or_empty (r_data (fb_events ?b (interests_query ''2026-10-02'' [''music''])))
              = [past_concert]"
    by code_simp
  have k5: "[past_concert] \<noteq> []" by simp
  from h1 h2
    fallback_on_no_rows_one_list[where b = ?b and today = "''2026-11-02''"
      and usr = "Some music_fan" and s = feed_initial]
  have first: "last (snd (fetchFeaturedEvents ?b ''2026-11-02'' (Some music_fan) feed_initial))
       = fallback_query ''2026-11-02'' \<and>
     featuredEvents (fst (fetchFeaturedEvents ?b ''2026-11-02'' (Some music_fan) feed_initial))
       = rows_or_empty (r_data (fb_events ?b (fallback_query ''2026-11-02'')))"
    by blast
  from k1 k2 k3 k4 k5
    fallback_on_no_rows_one_list[where b = ?b and today = "''2026-10-02''"
      and usr = "Some music_fan" and s = feed_initial and ints = "[''music'']"]
  have second: "featuredEvents (fst (fetchFeaturedEvents ?b ''2026-10-02'' (Some music_fan)
        feed_initial)) = [past_concert] \<and>
     fallback_query ''2026-10-02'' \<notin>
       set (snd (fetchFeaturedEvents ?b ''2026-10-02'' (Some music_fan) feed_initial))"
    by metis
  from h1 h2 k4 first second show ?thesis by blast
qed

lemma sorted_dates:
  "sorted (map (order_key event_column ''date'') rows) \<Longrightarrow> sorted (map fe_date rows)"
  by (induction rows) (auto simp: order_key_def event_column_def)

text \<open>What a fallback query that is answered as asked gives.\<close>

lemma honoured_fallback:
  assumes "honours event_column (fallback_query today) rows"
  shows "length rows \<le> 3" "\<forall>e\<in>set rows. today \<le> fe_date e" "sorted (map fe_date rows)"
  using assms sorted_dates[of rows]
  by (auto simp: honours_def fallback_query_def in_order_def within_limit_def event_column_def)

lemma in_order_ordered: "in_order col ord (ordered col ord rows)"
  by (auto simp: in_order_def ordered_def rev_map split: option.splits)

lemma sorted_take_map: "sorted (map k rows) \<Longrightarrow> sorted (map k (take n rows))"
  by (simp add: take_map[symmetric])

lemma sorted_rev_take_map:
  assumes "sorted (rev (map k rows))"
  shows "sorted (rev (map k (take n rows)))"
proof -
  have "rev (map k (take n rows)) = drop (length rows - n) (rev (map k rows))"
    by (simp add: take_map[symmetric] rev_take)
  with assms show ?thesis by simp
qed

lemma in_order_limited: "in_order col ord rows \<Longrightarrow> in_order col ord (limited lim rows)"
  by (auto simp: in_order_def limited_def sorted_take_map sorted_rev_take_map split: option.splits)

lemma set_limited_ordered: "set (limited lim (ordered col ord rows)) \<subseteq> set rows"
  by (auto simp: limited_def ordered_def split: option.splits dest: in_set_takeD)

text \<open>The modelled backend answers every query as asked.\<close>

lemma queryRows_honours: "honours col q (queryRows col tbl q)"
  unfolding honours_def queryRows_def
proof (intro conjI)
  show "\<forall>r\<in>set (limited (q_limit q) (ordered col (q_order q)
          (filter (\<lambda>r. \<forall>f\<in>set (q_filters q). holds col r f) tbl))). \<forall>f\<in>set (q_filters q). holds col r f"
    using set_limited_ordered[of "q_limit q" col "q_order q"] by fastforce
  show "in_order col (q_order q) (limited (q_limit q) (ordered col (q_order q)
          (filter (\<lambda>r. \<forall>f\<in>set (q_filters q). holds col r f) tbl)))"
    by (rule in_order_limited) (rule in_order_ordered)
  show "within_limit (q_limit q) (limited (q_limit q) (ordered col (q_order q)
          (filter (\<lambda>r. \<forall>f\<in>set (q_filters q). holds col r f) tbl)))"
    by (simp add: within_limit_def limited_def split: option.splits)
qed

lemma select_event_date: "event_column ''date'' (select_event cols e) = event_column ''date'' e"
  by (simp add: event_column_def select_event_def)

lemma feed_client_honours_fallback:
  "honours event_column (fallback_query today)
     (rows_or_empty (r_data (fb_events (feed_client db faults) (fallback_query today))))"
proof (cases "faults (fallback_query today)")
  case (Some err)
  then show ?thesis
    by (simp add: feed_client_def rows_or_empty_def honours_def in_order_def within_limit_def fallback_query_def)
next
  case None
  let ?rows = "queryRows event_column (db_events db) (fallback_query today)"
  have h: "honours event_column (fallback_query today) ?rows" by (rule queryRows_honours)
  have k: "order_key event_column ''date'' \<circ> select_event cols = order_key event_column ''date''" for cols
    by (rule ext) (simp add: order_key_def select_event_date)
  from h have "honours event_column (fallback_query today)
      (map (select_event (q_select (fallback_query today))) ?rows)"
    by (auto simp: honours_def in_order_def within_limit_def fallback_query_def select_event_date k)
  with None show ?thesis
    by (simp add: feed_client_def rows_or_empty_def)
qed

lemma no_user_run:
  assumes "honours event_column (fallback_query today)
             (rows_or_empty (r_data (fb_events b (fallback_query today))))"
  shows "snd (fetchFeaturedEvents b today None s) = [fallback_query today] \<and>
         (r_error (fb_events b (fallback_query today)) = None \<longrightarrow>
            featuredEvents (fst (fetchFeaturedEvents b today None s)) =
              rows_or_empty (r_data (fb_events b (fallback_query today)))) \<and>
         length (featuredEvents (fst (fetchFeaturedEvents b today None s))) \<le> 3 \<and>
         (\<forall>e\<in>set (featuredEvents (fst (fetchFeaturedEvents b today None s))).
            today \<le> fe_date e) \<and>
         sorted (map fe_date (featuredEvents (fst (fetchFeaturedEvents b today None s))))"
  using honoured_fallback[OF assms]
  by (auto simp: fetchFeaturedEvents_def feed_try_def read_interests_def by_interests_def
      fallback_def Let_def split: option.splits)

text \<open>
  Claim C7. With no user, the run issues the fallback query and nothing else, and the
  list it sets is the fallback list. The backend answering the query as asked (rows
  dated today or later, by ascending date, no more than the limit of three), the list
  set has at most three events, each dated today or later, in ascending order of date;
  this holds as well when the query fails, the list set being empty then. The modelled
  backend answers as asked, so over it this holds for every content of the tables and
  whichever requests fail.
\<close>

theorem no_user_fallback_list:
  "(honours event_column (fallback_query today)
      (rows_or_empty (r_data (fb_events b (fallback_query today)))) \<longrightarrow>
    snd (fetchFeaturedEvents b today None s) = [fallback_query today] \<and>
    (r_error (fb_events b (fallback_query today)) = None \<longrightarrow>
       featuredEvents (fst (fetchFeaturedEvents b today None s)) =
         rows_or_empty (r_data (fb_events b (fallback_query today)))) \<and>
    length (featuredEvents (fst (fetchFeaturedEvents b today None s))) \<le> 3 \<and>
    (\<forall>e\<in>set (featuredEvents (fst (fetchFeaturedEvents b today None s))).
       today \<le> fe_date e) \<and>
    sorted (map fe_date (featuredEvents (fst (fetchFeaturedEvents b today None s))))) \<and>
   snd (fetchFeaturedEvents (feed_client db faults) today None s) = [fallback_query today] \<and>
   length (featuredEvents (fst (fetchFeaturedEvents (feed_client db faults) today None s))) \<le> 3 \<and>
   (\<forall>e\<in>set (featuredEvents (fst (fetchFeaturedEvents (feed_client db faults) today None s))).
      today \<le> fe_date e) \<and>
   sorted (map fe_date
     (featuredEvents (fst (fetchFeaturedEvents (feed_client db faults) today None s))))"
  using no_user_run[of today b s]
    no_user_run[OF feed_client_honours_fallback[of today db faults], of s]
  by blast

theorem no_user_fallback_list_witness:
  "honours event_column (fallback_query ''2026-11-02'')
     (rows_or_empty (r_data (fb_events (feed_client campus_db no_faults)
        (fallback_query ''2026-11-02'')))) \<and>
   featuredEvents (fst (fetchFeaturedEvents (feed_client campus_db no_faults)
       ''2026-11-02'' None feed_initial))
     = [sports_event\<lparr>fe_category := None\<rparr>] \<and>
   length (featuredEvents (fst (fetchFeaturedEvents (feed_client campus_db no_faults)
       ''2026-11-02'' None feed_initial))) \<le> 3 \<and>
   sorted (map fe_date (featuredEvents (fst (fetchFeaturedEvents
       (feed_client campus_db no_faults) ''2026-11-02'' None feed_initial))))"
proof -
  have h: "honours event_column (fallback_query ''2026-11-02'')
     (rows_or_empty (r_data (fb_events (feed_client campus_db no_faults)
        (fallback_query ''2026-11-02''))))"
    by code_simp
  have v: "featuredEvents (fst (fetchFeaturedEvents (feed_client campus_db no_faults)
       ''2026-11-02'' None feed_initial))
     = [sports_event\<lparr>fe_category := None\<rparr>]"
    by code_simp
  from h v
    no_user_fallback_list[where b = "feed_client campus_db no_faults"
      and today = "''2026-11-02''" and s = feed_initial]
  show ?thesis by blast
qed

lemma no_match_like_no_user:
  assumes "fst (read_interests b (Some u)) = Some ints"
    "r_error (fb_events b (interests_query today ints)) = None"
    "rows_or_empty (r_data (fb_events b (interests_query today ints))) = []"
  shows "fst (fetchFeaturedEvents b today (Some u) s) = fst (fetchFeaturedEvents b today None s)"
  using assms
  by (auto simp: fetchFeaturedEvents_def feed_try_def read_interests_def by_interests_def
      fallback_def Let_def split: option.splits if_splits prod.splits sum.splits)

lemma music_sports_scenario:
  assumes "today \<le> fe_date e" "uid \<noteq> []"
  shows "featuredEvents (fst (fetchFeaturedEvents
            (feed_client \<lparr>db_profiles = [(uid, \<lparr>interests = Some [''music'']\<rparr>)], db_events = [e\<lparr>fe_category := Some ''sports''\<rparr>]\<rparr> no_faults)
            today (Some \<lparr>user_id = uid, is_admin = adm\<rparr>) s))
         = [e\<lparr>fe_category := None\<rparr>]"
  using assms
  by (simp add: fetchFeaturedEvents_def feed_try_def read_interests_def by_interests_def
      fallback_def feed_client_def no_faults_def profile_query_def interests_query_def fallback_query_def
      queryRows_def limited_def ordered_def profile_column_def event_column_def select_event_def
      rows_or_empty_def order_key_def)

text \<open>
  Claim C6. For a user whose interest tags \<open>ints\<close> match no upcoming event (the
  interest-filtered query comes back without error and without a row), the run ends in
  the same state as the run with no user: the fallback list. In particular, with the
  interests \<^verbatim>\<open>["music"]\<close> and one event in the table, dated today or later and of
  category \<^verbatim>\<open>"sports"\<close>, the list set is that event (as the fallback query selects
  it, without the category column), not the empty list.
\<close>

theorem no_match_same_as_no_user:
  "(fst (read_interests b (Some u)) = Some ints \<and> ints \<noteq> [] \<and>
    r_error (fb_events b (interests_query today ints)) = None \<and>
    rows_or_empty (r_data (fb_events b (interests_query today ints))) = [] \<longrightarrow>
      fst (fetchFeaturedEvents b today (Some u) s) = fst (fetchFeaturedEvents b today None s)) \<and>
   (today \<le> fe_date e \<and> uid \<noteq> [] \<longrightarrow>
      featuredEvents (fst (fetchFeaturedEvents
          (feed_client \<lparr>db_profiles = [(uid, \<lparr>interests = Some [''music'']\<rparr>)],
                        db_events = [e\<lparr>fe_category := Some ''sports''\<rparr>]\<rparr> no_faults)
          today (Some \<lparr>user_id = uid, is_admin = adm\<rparr>) s))
        = [e\<lparr>fe_category := None\<rparr>])"
  using no_match_like_no_user[of b u ints today s] music_sports_scenario[of today e uid adm s]
  by blast

theorem no_match_same_as_no_user_witness:
  "fst (read_interests (feed_client campus_db no_faults) (Some music_fan)) = Some [''music''] \<and>
   rows_or_empty (r_data (fb_events (feed_client campus_db no_faults)
      (interests_query ''2026-11-02'' [''music'']))) = [] \<and>
   fst (fetchFeaturedEvents (feed_client campus_db no_faults) ''2026-11-02'' (Some music_fan) feed_initial)
     = fst (fetchFeaturedEvents (feed_client campus_db no_faults) ''2026-11-02'' None feed_initial) \<and>
   featuredEvents (fst (fetchFeaturedEvents (feed_client campus_db no_faults) ''2026-11-02'' None feed_initial))
     = [sports_event\<lparr>fe_category := None\<rparr>]"
proof -
  have h1: "fst (read_interests (feed_client campus_db no_faults) (Some music_fan)) = Some [''music'']"
    by code_simp
  have h2: "[''music''] \<noteq> ([] :: string list)" by simp
  have h3: "r_error (fb_events (feed_client campus_db no_faults)
      (interests_query ''2026-11-02'' [''music''])) = None"
    by code_simp
  have h4: "rows_or_empty (r_data (fb_events (feed_client campus_db no_faults)
      (interests_query ''2026-11-02'' [''music'']))) = []"
    by code_simp
  have v: "featuredEvents (fst (fetchFeaturedEvents (feed_client campus_db no_faults) ''2026-11-02'' None feed_initial))
     = [sports_event\<lparr>fe_category := None\<rparr>]"
    by code_simp
  from h1 h2 h3 h4 v
    no_match_same_as_no_user[where b = "feed_client campus_db no_faults" and u = music_fan
      and ints = "[''music'']" and today = "''2026-11-02''" and s = feed_initial]
  show ?thesis by blast
qed

text \<open>
  Claim C8, as stated, fails: "any query error aborts the feed computation and yields
  an empty event list". The profile query of step 1 is a query of the run, and its
  error is only logged (\<^verbatim>\<open>if (profileError) console.error(..)\<close>). Here the profile
  request fails and the list set is the upcoming sports event.
\<close>

theorem profile_error_does_not_abort:
  "profile_query ''u-1'' \<in> set (snd (fetchFeaturedEvents (feed_client campus_db profiles_down)
       ''2026-11-02'' (Some music_fan) feed_initial)) \<and>
   r_error (fb_profiles (feed_client campus_db profiles_down) (profile_query ''u-1''))
     = Some server_error \<and>
   featuredEvents (fst (fetchFeaturedEvents (feed_client campus_db profiles_down)
       ''2026-11-02'' (Some music_fan) feed_initial)) = [sports_event\<lparr>fe_category := None\<rparr>]"
  by code_simp

lemma events_error_empties:
  assumes "q \<in> set (snd (fetchFeaturedEvents b today usr s))" "q_table q = ''events''"
    "r_error (fb_events b q) \<noteq> None"
  shows "featuredEvents (fst (fetchFeaturedEvents b today usr s)) = []"
    "last (snd (fetchFeaturedEvents b today usr s)) = q"
  using assms
  by (auto simp: fetchFeaturedEvents_def feed_try_def read_interests_def by_interests_def
      fallback_def Let_def profile_query_def split: option.splits if_splits prod.splits sum.splits)

lemma feed_always_completes:
  "loadingFeaturedEvents (fst (fetchFeaturedEvents b today usr s)) = False"
  by (auto simp: fetchFeaturedEvents_def split: prod.splits sum.splits)

lemma profile_error_ignored:
  "fetchFeaturedEvents (b\<lparr>fb_profiles := \<lambda>q. (fb_profiles b q)\<lparr>r_error := e q\<rparr>\<rparr>) today usr s
     = fetchFeaturedEvents b today usr s"
proof -
  let ?b' = "b\<lparr>fb_profiles := \<lambda>q. (fb_profiles b q)\<lparr>r_error := e q\<rparr>\<rparr>"
  have 1: "read_interests ?b' usr = read_interests b usr"
    by (cases usr) (simp_all add: read_interests_def)
  have 2: "by_interests ?b' today ui = by_interests b today ui" for ui
    by (auto simp: by_interests_def split: option.splits)
  have 3: "fallback ?b' today evs = fallback b today evs" for evs
    by (simp add: fallback_def)
  show ?thesis
    by (simp only: fetchFeaturedEvents_def feed_try_def 1 2 3)
qed

text \<open>
  Claim C8, amended. Every run ends with the loading flag cleared, whatever fails: no
  error reaches the caller. An error of an events query that the run issues (the
  interest-filtered query or the fallback query) aborts the computation: the failing
  query is the last query of the run, nothing is issued after it, and the list set is
  empty. The error of the profile query has no effect on the run at all: the
  computation goes on from the profile data that came back.
\<close>

theorem events_error_empties_feed:
  "loadingFeaturedEvents (fst (fetchFeaturedEvents b today usr s)) = False \<and>
   ((\<exists>q\<in>set (snd (fetchFeaturedEvents b today usr s)).
        q_table q = ''events'' \<and> r_error (fb_events b q) \<noteq> None) \<longrightarrow>
      featuredEvents (fst (fetchFeaturedEvents b today usr s)) = []) \<and>
   (failing \<in> set (snd (fetchFeaturedEvents b today usr s)) \<and>
    q_table failing = ''events'' \<and> r_error (fb_events b failing) \<noteq> None \<longrightarrow>
      last (snd (fetchFeaturedEvents b today usr s)) = failing \<and>
      featuredEvents (fst (fetchFeaturedEvents b today usr s)) = []) \<and>
   fetchFeaturedEvents (b\<lparr>fb_profiles := \<lambda>q. (fb_profiles b q)\<lparr>r_error := e q\<rparr>\<rparr>) today usr s
     = fetchFeaturedEvents b today usr s"
  using events_error_empties(1)[of _ b today usr s]
    events_error_empties[of failing b today usr s] feed_always_completes[of b today usr s]
    profile_error_ignored[where b = b and e = e and today = today and usr = usr and s = s]
  by blast

theorem events_error_empties_feed_witness:
  "interests_query ''2026-11-02'' [''music''] \<in>
     set (snd (fetchFeaturedEvents (feed_client campus_db events_down)
       ''2026-11-02'' (Some music_fan) feed_initial)) \<and>
   r_error (fb_events (feed_client campus_db events_down)
     (interests_query ''2026-11-02'' [''music''])) \<noteq> None \<and>
   last (snd (fetchFeaturedEvents (feed_client campus_db events_down)
       ''2026-11-02'' (Some music_fan) feed_initial)) = interests_query ''2026-11-02'' [''music''] \<and>
   fallback_query ''2026-11-02'' \<noteq> interests_query ''2026-11-02'' [''music''] \<and>
   featuredEvents (fst (fetchFeaturedEvents (feed_client campus_db events_down)
       ''2026-11-02'' (Some music_fan) feed_initial)) = []"
proof -
  let ?b = "feed_client campus_db events_down"
  let ?q = "interests_query ''2026-11-02'' [''music'']"
  have h1: "?q \<in> set (snd (fetchFeaturedEvents ?b ''2026-11-02'' (Some music_fan) feed_initial))"
    by code_simp
  have h2: "q_table ?q = ''events''"
    by (simp add: interests_query_def)
  have h3: "r_error (fb_events ?b ?q) \<noteq> None"
    by code_simp
  have d: "fallback_query ''2026-11-02'' \<noteq> ?q"
    by (rule fallback_query_distinct(1))
  from h1 h2 h3 d
    events_error_empties_feed[where b = ?b and today = "''2026-11-02''"
      and usr = "Some music_fan" and s = feed_initial and failing = ?q]
  show ?thesis by blast
qed

section \<open>Properties of the search page\<close>







lemma issued_in_search:
  assumes "q \<noteq> []"
  shows "snd (performSearch b (Some q) s) =
     (if r_error (sb_events b (events_search (''%'' @ q @ ''%''))) \<noteq> None
      then [events_search (''%'' @ q @ ''%'')]
      else if r_error (sb_clubs b (clubs_search (''%'' @ q @ ''%''))) \<noteq> None
      then [events_search (''%'' @ q @ ''%''), clubs_search (''%'' @ q @ ''%'')]
      else [events_search (''%'' @ q @ ''%''), clubs_search (''%'' @ q @ ''%''),
            announcements_search (''%'' @ q @ ''%'')])"
  using assms by (auto simp: performSearch_def Let_def split: option.splits)

lemma counts_in_search:
  assumes "q \<noteq> []"
    "within_limit (q_limit (events_search (''%'' @ q @ ''%'')))
       (rows_or_empty (r_data (sb_events b (events_search (''%'' @ q @ ''%'')))))"
    "within_limit (q_limit (clubs_search (''%'' @ q @ ''%'')))
       (rows_or_empty (r_data (sb_clubs b (clubs_search (''%'' @ q @ ''%'')))))"
    "within_limit (q_limit (announcements_search (''%'' @ q @ ''%'')))
       (rows_or_empty (r_data (sb_announcements b (announcements_search (''%'' @ q @ ''%'')))))"
  shows "length (sp_events (fst (performSearch b (Some q) s))) \<le> 10"
    "length (sp_clubs (fst (performSearch b (Some q) s))) \<le> 10"
    "length (sp_announcements (fst (performSearch b (Some q) s))) \<le> 10"
  using assms
  by (auto simp: performSearch_def search_failed_def Let_def within_limit_def
      events_search_def clubs_search_def announcements_search_def split: option.splits)

text \<open>The modelled backend never gives more rows than the limit of the query.\<close>

lemma answer_within_limit:
  "within_limit (q_limit q) (rows_or_empty (r_data (answer faults (queryRows col tbl) q)))"
  by (simp add: within_limit_def answer_def rows_or_empty_def queryRows_def limited_def
      split: option.splits)

lemma counts_over_search_client:
  assumes "q \<noteq> []"
  shows "length (sp_events (fst (performSearch (search_client db faults) (Some q) s))) \<le> 10"
    "length (sp_clubs (fst (performSearch (search_client db faults) (Some q) s))) \<le> 10"
    "length (sp_announcements (fst (performSearch (search_client db faults) (Some q) s))) \<le> 10"
proof -
  let ?b = "search_client db faults"
  have 1: "within_limit (q_limit (events_search (''%'' @ q @ ''%'')))
       (rows_or_empty (r_data (sb_events ?b (events_search (''%'' @ q @ ''%'')))))"
    unfolding search_client_def by (simp add: answer_within_limit)
  have 2: "within_limit (q_limit (clubs_search (''%'' @ q @ ''%'')))
       (rows_or_empty (r_data (sb_clubs ?b (clubs_search (''%'' @ q @ ''%'')))))"
    unfolding search_client_def by (simp add: answer_within_limit)
  have 3: "within_limit (q_limit (announcements_search (''%'' @ q @ ''%'')))
       (rows_or_empty (r_data (sb_announcements ?b (announcements_search (''%'' @ q @ ''%'')))))"
    unfolding search_client_def by (simp add: answer_within_limit)
  from counts_in_search[OF assms 1 2 3, of s]
  show "length (sp_events (fst (performSearch ?b (Some q) s))) \<le> 10"
    "length (sp_clubs (fst (performSearch ?b (Some q) s))) \<le> 10"
    "length (sp_announcements (fst (performSearch ?b (Some q) s))) \<le> 10"
    by blast+
qed

text \<open>Splitting at a separator, and the or-string of two pattern matches.\<close>

lemma split_on_absent: "d \<notin> set s \<Longrightarrow> split_on d s = [s]"
  by (induction s) auto

lemma split_on_first: "d \<notin> set a \<Longrightarrow> split_on d (a @ d # b) = a # split_on d b"
  by (induction a) auto

lemma parse_ilike:
  "parse_condition (''title.ilike.'' @ t) = Some (''title'', ''ilike'', t)"
  "parse_condition (''name.ilike.'' @ t) = Some (''name'', ''ilike'', t)"
  "parse_condition (''description.ilike.'' @ t) = Some (''description'', ''ilike'', t)"
  "parse_condition (''content.ilike.'' @ t) = Some (''content'', ''ilike'', t)"
  by (simp_all add: parse_condition_def)

lemma parse_or_two:
  assumes "CHR '','' \<notin> set t" "CHR ''('' \<notin> set t" "CHR '')'' \<notin> set t"
  shows "parse_or (''title.ilike.'' @ t @ '',description.ilike.'' @ t) =
           Some [(''title'', ''ilike'', t), (''description'', ''ilike'', t)]"
    "parse_or (''name.ilike.'' @ t @ '',description.ilike.'' @ t) =
           Some [(''name'', ''ilike'', t), (''description'', ''ilike'', t)]"
    "parse_or (''title.ilike.'' @ t @ '',content.ilike.'' @ t) =
           Some [(''title'', ''ilike'', t), (''content'', ''ilike'', t)]"
proof -
  have s1: "split_on CHR '','' ((''title.ilike.'' @ t) @ CHR '','' # (''description.ilike.'' @ t)) =
      [''title.ilike.'' @ t, ''description.ilike.'' @ t]"
    using assms(1) by (subst split_on_first) (simp_all add: split_on_absent)
  have s2: "split_on CHR '','' ((''name.ilike.'' @ t) @ CHR '','' # (''description.ilike.'' @ t)) =
      [''name.ilike.'' @ t, ''description.ilike.'' @ t]"
    using assms(1) by (subst split_on_first) (simp_all add: split_on_absent)
  have s3: "split_on CHR '','' ((''title.ilike.'' @ t) @ CHR '','' # (''content.ilike.'' @ t)) =
      [''title.ilike.'' @ t, ''content.ilike.'' @ t]"
    using assms(1) by (subst split_on_first) (simp_all add: split_on_absent)
  have e1: "''title.ilike.'' @ t @ '',description.ilike.'' @ t =
      (''title.ilike.'' @ t) @ CHR '','' # (''description.ilike.'' @ t)" by simp
  have e2: "''name.ilike.'' @ t @ '',description.ilike.'' @ t =
      (''name.ilike.'' @ t) @ CHR '','' # (''description.ilike.'' @ t)" by simp
  have e3: "''title.ilike.'' @ t @ '',content.ilike.'' @ t =
      (''title.ilike.'' @ t) @ CHR '','' # (''content.ilike.'' @ t)" by simp
  have p: "CHR ''('' \<notin> set (''title.ilike.'' @ t @ '',description.ilike.'' @ t)"
    "CHR '')'' \<notin> set (''title.ilike.'' @ t @ '',description.ilike.'' @ t)"
    "CHR ''('' \<notin> set (''name.ilike.'' @ t @ '',description.ilike.'' @ t)"
    "CHR '')'' \<notin> set (''name.ilike.'' @ t @ '',description.ilike.'' @ t)"
    "CHR ''('' \<notin> set (''title.ilike.'' @ t @ '',content.ilike.'' @ t)"
    "CHR '')'' \<notin> set (''title.ilike.'' @ t @ '',content.ilike.'' @ t)"
    using assms(2,3) by simp_all
  show "parse_or (''title.ilike.'' @ t @ '',description.ilike.'' @ t) =
           Some [(''title'', ''ilike'', t), (''description'', ''ilike'', t)]"
    unfolding parse_or_def using p(1,2) by (simp only: e1 s1 if_False) (simp add: parse_ilike[simplified])
  show "parse_or (''name.ilike.'' @ t @ '',description.ilike.'' @ t) =
           Some [(''name'', ''ilike'', t), (''description'', ''ilike'', t)]"
    unfolding parse_or_def using p(3,4) by (simp only: e2 s2 if_False) (simp add: parse_ilike[simplified])
  show "parse_or (''title.ilike.'' @ t @ '',content.ilike.'' @ t) =
           Some [(''title'', ''ilike'', t), (''content'', ''ilike'', t)]"
    unfolding parse_or_def using p(5,6) by (simp only: e3 s3 if_False) (simp add: parse_ilike[simplified])
qed

text \<open>
  Claim C3, as stated, fails: "search issues exactly three queries ... matched on title
  OR description" for every non-empty query. The queries are awaited one after another,
  each followed by \<^verbatim>\<open>if (xError) throw xError\<close>; when the events query fails, it is
  the only query issued. And the query is pasted into the or-string as it is: for the
  query \<^verbatim>\<open>fair,club\<close> the or-string has four items, two of which are no conditions;
  it is not the filter "title or description", the backend refuses the request, and
  the search ends in the error state after one query, with no request failing on its own.
\<close>

theorem first_query_failing_stops_search:
  "snd (performSearch (search_client library_db events_down) (Some ''hack'') search_initial)
     = [events_search ''%hack%''] \<and>
   split_on CHR '','' (''title.ilike.'' @ ''%fair,club%'' @ '',description.ilike.'' @ ''%fair,club%'')
     = [''title.ilike.%fair'', ''club%'', ''description.ilike.%fair'', ''club%''] \<and>
   parse_or (''title.ilike.'' @ ''%fair,club%'' @ '',description.ilike.'' @ ''%fair,club%'') = None \<and>
   snd (performSearch (search_client library_db no_faults) (Some ''fair,club'') search_initial)
     = [events_search ''%fair,club%''] \<and>
   sp_error (fst (performSearch (search_client library_db no_faults) (Some ''fair,club'')
       search_initial)) = Some ''Failed to perform search''"
  by code_simp

text \<open>
  Claim C3, amended. For a non-empty query the category queries are issued in turn,
  events, then clubs, then announcements, each only when the ones before it did not
  fail: three when the events and the clubs query succeed, fewer otherwise. Each
  carries the or-string built from the pattern \<^verbatim>\<open>%query%\<close>, on title and description
  for events, on name and description for clubs, on title and content for
  announcements, and asks for at most 10 rows; the announcements query asks for the
  newest first. For a query without comma and parenthesis the or-string is the filter
  of two pattern matches, one column or the other. Over the modelled backend, whatever
  the tables hold and whichever requests fail, each of the three lists set has at most 10
  entries.
\<close>

theorem search_queries_in_turn:
  assumes "q \<noteq> []"
  shows "snd (performSearch b (Some q) s) =
     (if r_error (sb_events b (events_search (''%'' @ q @ ''%''))) \<noteq> None
      then [events_search (''%'' @ q @ ''%'')]
      else if r_error (sb_clubs b (clubs_search (''%'' @ q @ ''%''))) \<noteq> None
      then [events_search (''%'' @ q @ ''%''), clubs_search (''%'' @ q @ ''%'')]
      else [events_search (''%'' @ q @ ''%''), clubs_search (''%'' @ q @ ''%''),
            announcements_search (''%'' @ q @ ''%'')]) \<and>
    events_search (''%'' @ q @ ''%'') =
      \<lparr>q_table = ''events'', q_select = [''id'', ''title'', ''date'', ''description''],
       q_filters = [Or_string (''title.ilike.'' @ (''%'' @ q @ ''%'') @
                               '',description.ilike.'' @ (''%'' @ q @ ''%''))],
       q_order = None, q_limit = Some 10, q_single = False\<rparr> \<and>
    clubs_search (''%'' @ q @ ''%'') =
      \<lparr>q_table = ''clubs'', q_select = [''id'', ''name'', ''description''],
       q_filters = [Or_string (''name.ilike.'' @ (''%'' @ q @ ''%'') @
                               '',description.ilike.'' @ (''%'' @ q @ ''%''))],
       q_order = None, q_limit = Some 10, q_single = False\<rparr> \<and>
    announcements_search (''%'' @ q @ ''%'') =
      \<lparr>q_table = ''announcements'', q_select = [''id'', ''title'', ''content'', ''created_at''],
       q_filters = [Or_string (''title.ilike.'' @ (''%'' @ q @ ''%'') @
                               '',content.ilike.'' @ (''%'' @ q @ ''%''))],
       q_order = Some (''created_at'', False), q_limit = Some 10, q_single = False\<rparr> \<and>
    (CHR '','' \<notin> set q \<and> CHR ''('' \<notin> set q \<and> CHR '')'' \<notin> set q \<longrightarrow>
       parse_or (''title.ilike.'' @ (''%'' @ q @ ''%'') @
                 '',description.ilike.'' @ (''%'' @ q @ ''%'')) =
         Some [(''title'', ''ilike'', ''%'' @ q @ ''%''),
               (''description'', ''ilike'', ''%'' @ q @ ''%'')] \<and>
       parse_or (''name.ilike.'' @ (''%'' @ q @ ''%'') @
                 '',description.ilike.'' @ (''%'' @ q @ ''%'')) =
         Some [(''name'', ''ilike'', ''%'' @ q @ ''%''),
               (''description'', ''ilike'', ''%'' @ q @ ''%'')] \<and>
       parse_or (''title.ilike.'' @ (''%'' @ q @ ''%'') @
                 '',content.ilike.'' @ (''%'' @ q @ ''%'')) =
         Some [(''title'', ''ilike'', ''%'' @ q @ ''%''),
               (''content'', ''ilike'', ''%'' @ q @ ''%'')]) \<and>
    length (sp_events (fst (performSearch (search_client db faults) (Some q) s))) \<le> 10 \<and>
    length (sp_clubs (fst (performSearch (search_client db faults) (Some q) s))) \<le> 10 \<and>
    length (sp_announcements (fst (performSearch (search_client db faults) (Some q) s))) \<le> 10"
proof -
  have shapes: "events_search (''%'' @ q @ ''%'') =
      \<lparr>q_table = ''events'', q_select = [''id'', ''title'', ''date'', ''description''],
       q_filters = [Or_string (''title.ilike.'' @ (''%'' @ q @ ''%'') @
                               '',description.ilike.'' @ (''%'' @ q @ ''%''))],
       q_order = None, q_limit = Some 10, q_single = False\<rparr> \<and>
    clubs_search (''%'' @ q @ ''%'') =
      \<lparr>q_table = ''clubs'', q_select = [''id'', ''name'', ''description''],
       q_filters = [Or_string (''name.ilike.'' @ (''%'' @ q @ ''%'') @
                               '',description.ilike.'' @ (''%'' @ q @ ''%''))],
       q_order = None, q_limit = Some 10, q_single = False\<rparr> \<and>
    announcements_search (''%'' @ q @ ''%'') =
      \<lparr>q_table = ''announcements'', q_select = [''id'', ''title'', ''content'', ''created_at''],
       q_filters = [Or_string (''title.ilike.'' @ (''%'' @ q @ ''%'') @
                               '',content.ilike.'' @ (''%'' @ q @ ''%''))],
       q_order = Some (''created_at'', False), q_limit = Some 10, q_single = False\<rparr>"
    by (simp add: events_search_def clubs_search_def announcements_search_def)
  have plain: "CHR '','' \<notin> set q \<and> CHR ''('' \<notin> set q \<and> CHR '')'' \<notin> set q \<longrightarrow>
      CHR '','' \<notin> set (''%'' @ q @ ''%'') \<and> CHR ''('' \<notin> set (''%'' @ q @ ''%'') \<and>
      CHR '')'' \<notin> set (''%'' @ q @ ''%'')"
    by simp
  from plain shapes issued_in_search[OF assms, of b s]
    counts_over_search_client[OF assms, of db faults s]
    parse_or_two[of "''%'' @ q @ ''%''"]
  show ?thesis by blast
qed

theorem search_queries_in_turn_witness:
  "snd (performSearch (search_client library_db no_faults) (Some ''hack'') search_initial) =
     [events_search ''%hack%'', clubs_search ''%hack%'', announcements_search ''%hack%''] \<and>
   parse_or (''title.ilike.'' @ ''%hack%'' @ '',description.ilike.'' @ ''%hack%'') =
     Some [(''title'', ''ilike'', ''%hack%''), (''description'', ''ilike'', ''%hack%'')] \<and>
   sp_events (fst (performSearch (search_client library_db no_faults) (Some ''hack'')
       search_initial)) = [hackathon] \<and>
   length (sp_events (fst (performSearch (search_client library_db no_faults) (Some ''hack'')
       search_initial))) \<le> 10 \<and>
   length (sp_clubs (fst (performSearch (search_client library_db no_faults) (Some ''hack'')
       search_initial))) \<le> 10 \<and>
   length (sp_announcements (fst (performSearch (search_client library_db no_faults)
       (Some ''hack'') search_initial))) \<le> 10"
proof -
  let ?b = "search_client library_db no_faults"
  have h1: "''hack'' \<noteq> ([] :: string)" by simp
  have h2: "CHR '','' \<notin> set ''hack'' \<and> CHR ''('' \<notin> set ''hack'' \<and> CHR '')'' \<notin> set ''hack''"
    by simp
  have e: "r_error (sb_events ?b (events_search (''%'' @ ''hack'' @ ''%''))) = None"
    by code_simp
  have c: "r_error (sb_clubs ?b (clubs_search (''%'' @ ''hack'' @ ''%''))) = None"
    by code_simp
  have v: "sp_events (fst (performSearch ?b (Some ''hack'') search_initial)) = [hackathon]"
    by code_simp
  from e c h2 v
    search_queries_in_turn[OF h1, of ?b search_initial library_db no_faults]
  show ?thesis by simp
qed

section \<open>The empty query, and searches that overlap\<close>

text \<open>
  For \<^verbatim>\<open>null\<close> and for the empty string, \<^verbatim>\<open>performSearch\<close> clears the loading flag
  and returns: no query is issued, and no cell but the loading flag is written.
\<close>

lemma empty_query_returns_early:
  "performSearch b None s = (s\<lparr>sp_loading := False\<rparr>, [])"
  "performSearch b (Some []) s = (s\<lparr>sp_loading := False\<rparr>, [])"
  by (simp_all add: performSearch_def)

text \<open>On a page that has just been mounted the lists are empty, and stay so.\<close>

lemma empty_query_on_fresh_page:
  "snd (performSearch b (Some []) search_initial) = []"
  "sp_events (fst (performSearch b (Some []) search_initial)) = []"
  "sp_clubs (fst (performSearch b (Some []) search_initial)) = []"
  "sp_announcements (fst (performSearch b (Some []) search_initial)) = []"
  by (simp_all add: performSearch_def search_initial_def)

text \<open>
  Claim C4: "search applied to the empty query returns an empty result set and issues
  zero backend calls". No call is issued. The lists are empty on a fresh page only:
  the early return comes before the statements that reset the lists and the error, which
  the path for a non-empty query runs. On the page that has shown the results for
  \<^verbatim>\<open>hack\<close>, the empty query leaves them in place, and the page shows them.
\<close>

theorem empty_query_keeps_earlier_results:
  "snd (performSearch (search_client library_db no_faults) (Some [])
          (fst (performSearch (search_client library_db no_faults) (Some ''hack'') search_initial)))
     = [] \<and>
   sp_events (fst (performSearch (search_client library_db no_faults) (Some [])
          (fst (performSearch (search_client library_db no_faults) (Some ''hack'') search_initial))))
     = [hackathon] \<and>
   shown_events (render_search (fst (performSearch (search_client library_db no_faults) (Some [])
          (fst (performSearch (search_client library_db no_faults) (Some ''hack'') search_initial)))))
     = [hackathon]"
  by code_simp

text \<open>
  Claim C5, as stated, fails. The query changes from \<^verbatim>\<open>hack\<close> to \<^verbatim>\<open>book\<close> while
  the search for \<^verbatim>\<open>hack\<close> is in flight, and the responses for \<^verbatim>\<open>hack\<close> arrive
  last: the page ends with the results for \<^verbatim>\<open>hack\<close>, which are not those of the
  latest query.
\<close>

theorem stale_search_overwrites_newer:
  "page_after (search_client library_db no_faults) late_answers (search_initial, [])
     = (fst (performSearch (search_client library_db no_faults) (Some ''hack'') search_initial), []) \<and>
   sp_events (fst (page_after (search_client library_db no_faults) late_answers (search_initial, [])))
     = [hackathon] \<and>
   sp_events (fst (performSearch (search_client library_db no_faults) (Some ''book'') search_initial))
     = [book_fair]"
  by code_simp

text \<open>A search for a non-empty query starts by resetting every cell.\<close>

lemma reset_forgets:
  "s\<lparr>sp_loading := True, sp_error := None, sp_events := [], sp_clubs := [],
     sp_announcements := []\<rparr> = search_initial"
  by (cases s) (simp add: search_initial_def)

lemma performSearch_forgets:
  assumes "q \<noteq> []"
  shows "performSearch b (Some q) s = performSearch b (Some q) search_initial"
  using assms by (simp add: performSearch_def reset_forgets)

text \<open>A run that no other run interleaves with is \<^verbatim>\<open>performSearch\<close> run in one go.\<close>

lemma performSearch_by_segments:
  "page_after b [Query_changes query, Response_arrives 0, Response_arrives 0, Response_arrives 0] (s, [])
     = (fst (performSearch b query s), [])"
  by (auto simp: page_after_def start_search_def resume_search_def performSearch_def Let_def
      split: option.splits)

text \<open>
  Claim C5, amended. When a search for a non-empty query starts with no earlier search
  in flight, and its responses arrive before the query changes again, the page ends in
  the result of that query alone, whatever it showed before.
\<close>

theorem search_alone_reflects_its_query:
  assumes "q \<noteq> []"
  shows "page_after b
           [Query_changes (Some q), Response_arrives 0, Response_arrives 0, Response_arrives 0]
           (s, [])
         = (fst (performSearch b (Some q) search_initial), [])"
  using performSearch_by_segments[of b "Some q" s] performSearch_forgets[OF assms, of b s]
  by simp

theorem search_alone_reflects_its_query_witness:
  "page_after (search_client library_db no_faults)
     [Query_changes (Some ''book''), Response_arrives 0, Response_arrives 0, Response_arrives 0]
     (fst (performSearch (search_client library_db no_faults) (Some ''hack'') search_initial), [])
   = (fst (performSearch (search_client library_db no_faults) (Some ''book'') search_initial), [])"
proof -
  have h: "''book'' \<noteq> ([] :: string)" by simp
  show ?thesis by (rule search_alone_reflects_its_query[OF h])
qed

section \<open>Properties of the edit-announcement form\<close>

text \<open>The two guards of \<^verbatim>\<open>handleSubmit\<close>, in the order in which they are tested.\<close>

lemma refused_submit:
  assumes "announcement = Some a"
    "usr = None \<or> (\<exists>u. usr = Some u \<and> an_created_by a \<noteq> Some (user_id u) \<and> \<not> is_admin u) \<or>
     trim (em_title s) = [] \<or> trim (em_content s) = []"
  shows "fst (snd (handleSubmit backend usr announcement s)) = []"
    "em_error (fst (handleSubmit backend usr announcement s)) =
       Some (if usr = None \<or> (\<exists>u. usr = Some u \<and> an_created_by a \<noteq> Some (user_id u) \<and> \<not> is_admin u)
             then ''You don't have permission to edit this announcement.''
             else ''Title and content cannot be empty.'')"
    "\<not> snd (snd (handleSubmit backend usr announcement s))"
  using assms
  by (auto simp: handleSubmit_def may_edit_def split: option.splits)

lemma issued_update:
  assumes "upd \<in> set (fst (snd (handleSubmit backend usr announcement s)))"
  shows "\<exists>a. announcement = Some a \<and>
           fst (snd (handleSubmit backend usr announcement s)) = [upd] \<and>
           upd = \<lparr>u_table = ''announcements'',
                  u_values = [(''title'', trim (em_title s)), (''content'', trim (em_content s))],
                  u_filters = [Eq ''id'' (an_id a)]\<rparr>"
  using assms
  by (auto simp: handleSubmit_def Let_def split: option.splits if_splits)

text \<open>What the update of the form does to a table of announcements.\<close>

lemma update_by_id:
  "updateRow \<lparr>u_table = t, u_values = [(''title'', x), (''content'', y)],
              u_filters = [Eq ''id'' i]\<rparr> tbl =
     map (\<lambda>row. if an_id row = i then row\<lparr>an_title := x, an_content := y\<rparr> else row) tbl"
  by (simp add: updateRow_def announcement_column_def assign_def)

text \<open>
  Claim C9. With an announcement \<open>a\<close> selected: when there is no user, or the user is
  neither the creator of \<open>a\<close> nor an admin, or the trimmed title or the trimmed content
  is empty, no update is issued and the error cell gets a message (the permission
  message when the permission test fails, the empty-field message otherwise). Any
  update the form issues is its only one: it sets title and content of
  \<^verbatim>\<open>announcements\<close> to the trimmed texts of the form, for the rows whose id is the id
  of the announcement; applied to a table it rewrites exactly those rows and leaves
  every other row as it is. With no announcement selected no update is issued either.
\<close>

theorem edit_guards_then_one_update:
  "(announcement = Some a \<and>
    (usr = None \<or> (\<exists>u. usr = Some u \<and> an_created_by a \<noteq> Some (user_id u) \<and> \<not> is_admin u) \<or>
     trim (em_title s) = [] \<or> trim (em_content s) = []) \<longrightarrow>
      fst (snd (handleSubmit backend usr announcement s)) = [] \<and>
      em_error (fst (handleSubmit backend usr announcement s)) =
        Some (if usr = None \<or> (\<exists>u. usr = Some u \<and> an_created_by a \<noteq> Some (user_id u) \<and> \<not> is_admin u)
              then ''You don't have permission to edit this announcement.''
              else ''Title and content cannot be empty.'')) \<and>
   (upd \<in> set (fst (snd (handleSubmit backend usr announcement s))) \<longrightarrow>
      (\<exists>a. announcement = Some a \<and>
         fst (snd (handleSubmit backend usr announcement s)) = [upd] \<and>
         upd = \<lparr>u_table = ''announcements'',
                u_values = [(''title'', trim (em_title s)), (''content'', trim (em_content s))],
                u_filters = [Eq ''id'' (an_id a)]\<rparr> \<and>
         (\<forall>tbl. updateRow upd tbl =
            map (\<lambda>row. if an_id row = an_id a
                        then row\<lparr>an_title := trim (em_title s), an_content := trim (em_content s)\<rparr>
                        else row) tbl))) \<and>
   (announcement = None \<longrightarrow>
      fst (snd (handleSubmit backend usr announcement s)) = [] \<and>
      em_error (fst (handleSubmit backend usr announcement s)) =
        Some ''No announcement selected for editing.'')"
proof (intro conjI impI)
  assume h: "announcement = Some a \<and>
    (usr = None \<or> (\<exists>u. usr = Some u \<and> an_created_by a \<noteq> Some (user_id u) \<and> \<not> is_admin u) \<or>
     trim (em_title s) = [] \<or> trim (em_content s) = [])"
  then show "fst (snd (handleSubmit backend usr announcement s)) = []"
    using refused_submit(1)[of announcement a usr s backend] by blast
  from h show "em_error (fst (handleSubmit backend usr announcement s)) =
        Some (if usr = None \<or> (\<exists>u. usr = Some u \<and> an_created_by a \<noteq> Some (user_id u) \<and> \<not> is_admin u)
              then ''You don't have permission to edit this announcement.''
              else ''Title and content cannot be empty.'')"
    using refused_submit(2)[of announcement a usr s backend] by blast
next
  assume "upd \<in> set (fst (snd (handleSubmit backend usr announcement s)))"
  from issued_update[OF this] obtain a' where a': "announcement = Some a'"
      "fst (snd (handleSubmit backend usr announcement s)) = [upd]"
      "upd = \<lparr>u_table = ''announcements'',
                u_values = [(''title'', trim (em_title s)), (''content'', trim (em_content s))],
                u_filters = [Eq ''id'' (an_id a')]\<rparr>"
    by blast
  have "\<forall>tbl. updateRow upd tbl =
            map (\<lambda>row. if an_id row = an_id a'
                        then row\<lparr>an_title := trim (em_title s), an_content := trim (em_content s)\<rparr>
                        else row) tbl"
    by (subst a'(3)) (simp add: update_by_id)
  with a' show "\<exists>a. announcement = Some a \<and>
         fst (snd (handleSubmit backend usr announcement s)) = [upd] \<and>
         upd = \<lparr>u_table = ''announcements'',
                u_values = [(''title'', trim (em_title s)), (''content'', trim (em_content s))],
                u_filters = [Eq ''id'' (an_id a)]\<rparr> \<and>
         (\<forall>tbl. updateRow upd tbl =
            map (\<lambda>row. if an_id row = an_id a
                        then row\<lparr>an_title := trim (em_title s), an_content := trim (em_content s)\<rparr>
                        else row) tbl)"
    by blast
next
  assume none: "announcement = None"
  then show "fst (snd (handleSubmit backend usr announcement s)) = []"
    by (simp add: handleSubmit_def)
  from none show "em_error (fst (handleSubmit backend usr announcement s)) =
        Some ''No announcement selected for editing.''"
    by (simp add: handleSubmit_def)
qed

theorem edit_guards_then_one_update_witness:
  "fst (snd (handleSubmit accepts_all (Some visitor) (Some exam_notice) edited_form)) = [] \<and>
   em_error (fst (handleSubmit accepts_all (Some visitor) (Some exam_notice) edited_form)) =
     Some ''You don't have permission to edit this announcement.'' \<and>
   fst (snd (handleSubmit accepts_all (Some music_fan) (Some exam_notice) edited_form)) =
     [\<lparr>u_table = ''announcements'',
       u_values = [(''title'', ''Exam timetable (updated)''), (''content'', ''Published on Tuesday'')],
       u_filters = [Eq ''id'' ''a-7'']\<rparr>] \<and>
   updateRow \<lparr>u_table = ''announcements'',
       u_values = [(''title'', ''Exam timetable (updated)''), (''content'', ''Published on Tuesday'')],
       u_filters = [Eq ''id'' ''a-7'']\<rparr> [exam_notice, other_notice] =
     [exam_notice\<lparr>an_title := ''Exam timetable (updated)'', an_content := ''Published on Tuesday''\<rparr>,
      other_notice]"
proof -
  let ?U = "\<lparr>u_table = ''announcements'',
       u_values = [(''title'', ''Exam timetable (updated)''), (''content'', ''Published on Tuesday'')],
       u_filters = [Eq ''id'' ''a-7'']\<rparr>"
  have stranger: "\<exists>u. Some visitor = Some u \<and> an_created_by exam_notice \<noteq> Some (user_id u) \<and> \<not> is_admin u"
    by (simp add: visitor_def exam_notice_def)
  with edit_guards_then_one_update[where announcement = "Some exam_notice" and a = exam_notice
      and usr = "Some visitor" and s = edited_form and backend = accepts_all]
  have refused: "fst (snd (handleSubmit accepts_all (Some visitor) (Some exam_notice) edited_form)) = []"
    "em_error (fst (handleSubmit accepts_all (Some visitor) (Some exam_notice) edited_form)) =
       Some ''You don't have permission to edit this announcement.''"
    by simp_all
  have sent: "?U \<in> set (fst (snd (handleSubmit accepts_all (Some music_fan) (Some exam_notice) edited_form)))"
    by code_simp
  have t: "trim (em_title edited_form) = ''Exam timetable (updated)''"
    "trim (em_content edited_form) = ''Published on Tuesday''"
    by code_simp+
  from sent edit_guards_then_one_update[where announcement = "Some exam_notice" and upd = ?U
      and usr = "Some music_fan" and s = edited_form and backend = accepts_all]
  obtain a where a: "Some exam_notice = Some a"
    "fst (snd (handleSubmit accepts_all (Some music_fan) (Some exam_notice) edited_form)) = [?U]"
    "\<forall>tbl. updateRow ?U tbl =
       map (\<lambda>row. if an_id row = an_id a
                   then row\<lparr>an_title := trim (em_title edited_form),
                            an_content := trim (em_content edited_form)\<rparr>
                   else row) tbl"
    by blast
  from a(1) have "a = exam_notice" by simp
  with a(3) t have "updateRow ?U [exam_notice, other_notice] =
     [exam_notice\<lparr>an_title := ''Exam timetable (updated)'', an_content := ''Published on Tuesday''\<rparr>,
      other_notice]"
    by (simp add: exam_notice_def other_notice_def)
  with refused a(2) show ?thesis by blast
qed

section \<open>Properties of the clubs page\<close>






end
